theory Spec2Isabelle
  imports Complex_Main
begin

section \<open>The two AutoTrader variants of ReadyTraderGo\<close>

text \<open>
  The repository holds two strategy files, \<^verbatim>\<open>autotrader_ac_3.py\<close> (called variant 1
  below and in the specification) and \<^verbatim>\<open>autotrader_ac_4.py\<close> (variant 2). Each
  defines a class \<^verbatim>\<open>AutoTrader\<close> whose methods are the handlers of the inbound
  events. A handler is modelled as a function from the trader's fields to the new fields
  and the list of commands it sent, in the order in which it sent them; a Python
  exception is the value \<open>Inl\<close> of the result. Python integers are unbounded, so they
  are \<open>int\<close>; Python's \<^verbatim>\<open>//\<close> rounds towards minus infinity, as \<open>div\<close> on
  \<open>int\<close> does. Logging is not modelled.
\<close>

subsection \<open>Constants and the types of the exchange interface\<close>

definition LOT_SIZE :: int where "LOT_SIZE = 10"
definition POSITION_LIMIT :: int where "POSITION_LIMIT = 100"
definition TICK_SIZE_IN_CENTS :: int where "TICK_SIZE_IN_CENTS = 100"

text \<open>
  \<^verbatim>\<open>MINIMUM_BID\<close> and \<^verbatim>\<open>MAXIMUM_ASK\<close> are imported from the package
  \<^verbatim>\<open>ready_trader_go\<close>, which is not part of the sources at hand; they are
  parameters here.
\<close>

definition MIN_BID_NEAREST_TICK :: "int \<Rightarrow> int" where
  "MIN_BID_NEAREST_TICK minimum_bid =
     (minimum_bid + TICK_SIZE_IN_CENTS) div TICK_SIZE_IN_CENTS * TICK_SIZE_IN_CENTS"

definition MAX_ASK_NEAREST_TICK :: "int \<Rightarrow> int" where
  "MAX_ASK_NEAREST_TICK maximum_ask =
     maximum_ask div TICK_SIZE_IN_CENTS * TICK_SIZE_IN_CENTS"

text \<open>
  Modelled from the spec: the enumerations \<^verbatim>\<open>Instrument\<close>, \<^verbatim>\<open>Side\<close> and
  \<^verbatim>\<open>Lifespan\<close> of \<^verbatim>\<open>ready_trader_go\<close> are missing from the sources. The
  specification speaks of a two-instrument pair (the tracked ETF and the reference
  future), of the sides Buy (\<^verbatim>\<open>Side.BID\<close>) and Sell (\<^verbatim>\<open>Side.ASK\<close>), and of a
  lifespan argument of an inserted order.
\<close>

datatype Instrument = FUTURE | ETF
datatype Side = ASK | BID
datatype Lifespan = FILL_AND_KILL | GOOD_FOR_DAY

text \<open>
  The outbound commands are the four \<^verbatim>\<open>send_...\<close> methods of the base class, with
  the arguments the source documents for them.
\<close>

datatype command =
    send_amend_order int int
  | send_cancel_order int
  | send_hedge_order int Side int int
  | send_insert_order int Side int int Lifespan

datatype error = IndexError | ZeroDivisionError | UnboundLocalError

text \<open>The inbound events, one constructor per handler, with the handler's arguments.
  The bytes of an error message are only decoded and logged; they are left out, a message
  being taken as text that decodes.\<close>

datatype event =
    Error_message int
  | Hedge_filled_message int int int
  | Order_filled_message int int int
  | Order_status_message int int int int
  | Trade_ticks_message Instrument int "int list" "int list" "int list" "int list"
  | Order_book_update_message Instrument int "int list" "int list" "int list" "int list"

subsection \<open>The fields of the trader\<close>

text \<open>
  \<open>order_ids\<close> is the state of \<^verbatim>\<open>itertools.count(1)\<close>: the value the next call of
  \<^verbatim>\<open>next\<close> returns. Variant 2 has one more field, \<open>position_orders\<close>.
\<close>

record AutoTrader_ac_3 =
  order_ids :: int
  bids :: "int set"
  asks :: "int set"
  ask_id :: int
  ask_price :: int
  bid_id :: int
  bid_price :: int
  position :: int
  bid_price_history_of_etf :: "int list"
  ask_price_history_of_etf :: "int list"
  bid_price_history_of_future :: "int list"
  ask_price_history_of_future :: "int list"

record AutoTrader_ac_4 = AutoTrader_ac_3 +
  position_orders :: int

definition init_ac_3 :: AutoTrader_ac_3 where
  "init_ac_3 = \<lparr> order_ids = 1, bids = {}, asks = {}, ask_id = 0, ask_price = 0,
       bid_id = 0, bid_price = 0, position = 0,
       bid_price_history_of_etf = [], ask_price_history_of_etf = [],
       bid_price_history_of_future = [], ask_price_history_of_future = [] \<rparr>"

definition init_ac_4 :: AutoTrader_ac_4 where
  "init_ac_4 = \<lparr> order_ids = 1, bids = {}, asks = {}, ask_id = 0, ask_price = 0,
       bid_id = 0, bid_price = 0, position = 0,
       bid_price_history_of_etf = [], ask_price_history_of_etf = [],
       bid_price_history_of_future = [], ask_price_history_of_future = [],
       position_orders = 0 \<rparr>"

subsection \<open>List indexing as Python does it\<close>

text \<open>\<^verbatim>\<open>xs[0]\<close> and \<^verbatim>\<open>xs[-1]\<close> raise \<^verbatim>\<open>IndexError\<close> on the empty list.\<close>

definition index_first :: "int list \<Rightarrow> error + int" where
  "index_first xs = (case xs of [] \<Rightarrow> Inl IndexError | x # _ \<Rightarrow> Inr x)"

definition index_last :: "int list \<Rightarrow> error + int" where
  "index_last xs = (if xs = [] then Inl IndexError else Inr (last xs))"

subsection \<open>Parts the two files share word for word\<close>

text \<open>
  The block \<^verbatim>\<open># price history updates\<close> of \<^verbatim>\<open>on_order_book_update_message\<close>:
  the best bid, then the best ask, of the event is appended to the histories of the
  event's instrument.
\<close>

definition price_history_updates ::
  "'a AutoTrader_ac_3_scheme \<Rightarrow> Instrument \<Rightarrow> int list \<Rightarrow> int list
     \<Rightarrow> error + 'a AutoTrader_ac_3_scheme" where
  "price_history_updates s instrument ask_prices bid_prices =
     (case index_first bid_prices of Inl e \<Rightarrow> Inl e | Inr b \<Rightarrow>
      (case index_first ask_prices of Inl e \<Rightarrow> Inl e | Inr a \<Rightarrow>
        let s1 = (if instrument = ETF
                  then s\<lparr> bid_price_history_of_etf := bid_price_history_of_etf s @ [b],
                          ask_price_history_of_etf := ask_price_history_of_etf s @ [a] \<rparr>
                  else s);
            s2 = (if instrument = FUTURE
                  then s1\<lparr> bid_price_history_of_future := bid_price_history_of_future s1 @ [b],
                           ask_price_history_of_future := ask_price_history_of_future s1 @ [a] \<rparr>
                  else s1)
        in Inr s2))"

text \<open>The test \<^verbatim>\<open>len(self.bid_price_history_of_etf) == len(self.bid_price_history_of_future)\<close>.\<close>

definition is_latest_info :: "'a AutoTrader_ac_3_scheme \<Rightarrow> bool" where
  "is_latest_info s \<longleftrightarrow>
     length (bid_price_history_of_etf s) = length (bid_price_history_of_future s)"

text \<open>The pair \<^verbatim>\<open>(midpoint_price_of_etf, midpoint_price_of_future)\<close>, read from the last
  entries of the four histories.\<close>

definition midpoint_prices :: "'a AutoTrader_ac_3_scheme \<Rightarrow> error + (int \<times> int)" where
  "midpoint_prices s =
     (case index_last (bid_price_history_of_etf s) of Inl e \<Rightarrow> Inl e | Inr be \<Rightarrow>
      (case index_last (ask_price_history_of_etf s) of Inl e \<Rightarrow> Inl e | Inr ae \<Rightarrow>
      (case index_last (bid_price_history_of_future s) of Inl e \<Rightarrow> Inl e | Inr bf \<Rightarrow>
      (case index_last (ask_price_history_of_future s) of Inl e \<Rightarrow> Inl e | Inr af \<Rightarrow>
        Inr ((be + ae) div 2, (bf + af) div 2)))))"

definition multiplier_of :: "int \<Rightarrow> int \<Rightarrow> int" where
  "multiplier_of midpoint_price_of_etf midpoint_price_of_future =
     \<bar>midpoint_price_of_etf - midpoint_price_of_future\<bar> div TICK_SIZE_IN_CENTS + 1"

text \<open>\<^verbatim>\<open>on_error_message\<close> is the same in both files but for the status handler it
  calls; \<^verbatim>\<open>on_hedge_filled_message\<close> and \<^verbatim>\<open>on_trade_ticks_message\<close> only log.\<close>

subsection \<open>Variant 1: autotrader\_ac\_3.py\<close>

definition on_order_status_message_ac_3 ::
  "AutoTrader_ac_3 \<Rightarrow> int \<Rightarrow> int \<Rightarrow> int \<Rightarrow> int \<Rightarrow> AutoTrader_ac_3" where
  "on_order_status_message_ac_3 s client_order_id fill_volume remaining_volume fees =
     (if remaining_volume = 0 then
        let s1 = (if client_order_id = bid_id s then s\<lparr>bid_id := 0\<rparr>
                  else if client_order_id = ask_id s then s\<lparr>ask_id := 0\<rparr>
                  else s)
        in s1\<lparr> bids := bids s1 - {client_order_id}, asks := asks s1 - {client_order_id} \<rparr>
      else s)"

definition on_error_message_ac_3 :: "AutoTrader_ac_3 \<Rightarrow> int \<Rightarrow> AutoTrader_ac_3" where
  "on_error_message_ac_3 s client_order_id =
     (if client_order_id \<noteq> 0 \<and> (client_order_id \<in> bids s \<or> client_order_id \<in> asks s)
      then on_order_status_message_ac_3 s client_order_id 0 0 0
      else s)"

definition on_order_filled_message_ac_3 ::
  "int \<Rightarrow> int \<Rightarrow> AutoTrader_ac_3 \<Rightarrow> int \<Rightarrow> int \<Rightarrow> int \<Rightarrow> AutoTrader_ac_3 \<times> command list" where
  "on_order_filled_message_ac_3 minimum_bid maximum_ask s client_order_id price volume =
     (if client_order_id \<in> bids s then
        (s\<lparr> position := position s + volume, order_ids := order_ids s + 1 \<rparr>,
         [send_hedge_order (order_ids s) ASK (MIN_BID_NEAREST_TICK minimum_bid) volume])
      else if client_order_id \<in> asks s then
        (s\<lparr> position := position s - volume, order_ids := order_ids s + 1 \<rparr>,
         [send_hedge_order (order_ids s) BID (MAX_ASK_NEAREST_TICK maximum_ask) volume])
      else (s, []))"

text \<open>The chain \<^verbatim>\<open># determine volume\<close> of the sell branch. Were no test of the chain
  true, \<^verbatim>\<open>volume\<close> would be unbound at its use.\<close>

definition determine_volume_sell_ac_3 :: "int \<Rightarrow> int \<Rightarrow> error + int" where
  "determine_volume_sell_ac_3 pos multiplier =
     (let is_positive_position = (pos \<ge> 0) in
      if is_positive_position \<and> pos - LOT_SIZE * multiplier \<ge> -100 then Inr (LOT_SIZE * multiplier)
      else if is_positive_position \<and> pos - LOT_SIZE * multiplier \<le> -100 then Inr (100 + pos)
      else if \<not> is_positive_position \<and> pos - LOT_SIZE * multiplier \<ge> -100 then Inr (LOT_SIZE * multiplier)
      else if \<not> is_positive_position \<and> pos - LOT_SIZE * multiplier \<le> -100 then Inr (100 + pos)
      else Inl UnboundLocalError)"

text \<open>The chain of the buy branch, and the assignment under \<^verbatim>\<open># send order\<close> that
  replaces its result.\<close>

definition determine_volume_buy_ac_3 :: "int \<Rightarrow> int \<Rightarrow> error + int" where
  "determine_volume_buy_ac_3 pos multiplier =
     (let is_positive_position = (pos \<ge> 0) in
      case (if is_positive_position \<and> pos + LOT_SIZE * multiplier \<le> 100 then Inr (LOT_SIZE * multiplier)
            else if is_positive_position \<and> pos + LOT_SIZE * multiplier > 100 then Inr (100 - pos)
            else if \<not> is_positive_position \<and> pos + LOT_SIZE * multiplier \<le> 100 then Inr (LOT_SIZE * multiplier)
            else if \<not> is_positive_position \<and> pos + LOT_SIZE * multiplier \<ge> 100 then Inr (100 - pos)
            else Inl UnboundLocalError)
      of Inl e \<Rightarrow> Inl e
       | Inr _ \<Rightarrow> Inr (if LOT_SIZE * multiplier + pos \<le> 100 then LOT_SIZE * multiplier else 100 - pos))"

text \<open>The body of \<^verbatim>\<open>if instrument == Instrument.ETF\<close> under \<^verbatim>\<open># sell etf\<close>. It runs
  only for an ETF update, whose \<^verbatim>\<open>ask_prices[0]\<close> and \<^verbatim>\<open>bid_prices[0]\<close> the handler has
  already read, so \<open>ask_prices ! 0\<close> is the head of a list that is not empty.\<close>

definition sell_etf_ac_3 ::
  "AutoTrader_ac_3 \<Rightarrow> int \<Rightarrow> int list \<Rightarrow> error + AutoTrader_ac_3 \<times> command list" where
  "sell_etf_ac_3 s multiplier ask_prices =
     (let c1 = (if ask_id s \<noteq> 0 then [send_cancel_order (ask_id s)] else []);
          s1 = (if ask_id s \<noteq> 0 then s\<lparr>ask_id := 0\<rparr> else s)
      in if ask_id s1 = 0 \<and> position s1 > - POSITION_LIMIT + LOT_SIZE then
           (case determine_volume_sell_ac_3 (position s1) multiplier of
              Inl e \<Rightarrow> Inl e
            | Inr volume \<Rightarrow>
                let s2 = s1\<lparr> ask_id := order_ids s1, order_ids := order_ids s1 + 1 \<rparr>
                in Inr (s2\<lparr> asks := insert (ask_id s2) (asks s2) \<rparr>,
                        c1 @ [send_insert_order (ask_id s2) ASK (ask_prices ! 0) volume GOOD_FOR_DAY]))
         else Inr (s1, c1))"

text \<open>The body of \<^verbatim>\<open>if instrument == Instrument.ETF\<close> under \<^verbatim>\<open># buy etf\<close>.\<close>

definition buy_etf_ac_3 ::
  "AutoTrader_ac_3 \<Rightarrow> int \<Rightarrow> int list \<Rightarrow> error + AutoTrader_ac_3 \<times> command list" where
  "buy_etf_ac_3 s multiplier bid_prices =
     (let c1 = (if bid_id s \<noteq> 0 then [send_cancel_order (bid_id s)] else []);
          s1 = (if bid_id s \<noteq> 0 then s\<lparr>bid_id := 0\<rparr> else s)
      in if bid_id s1 = 0 \<and> position s1 < POSITION_LIMIT - LOT_SIZE then
           (case determine_volume_buy_ac_3 (position s1) multiplier of
              Inl e \<Rightarrow> Inl e
            | Inr volume \<Rightarrow>
                let s2 = s1\<lparr> bid_id := order_ids s1, order_ids := order_ids s1 + 1 \<rparr>
                in Inr (s2\<lparr> bids := insert (bid_id s2) (bids s2) \<rparr>,
                        c1 @ [send_insert_order (bid_id s2) BID (bid_prices ! 0) volume GOOD_FOR_DAY]))
         else Inr (s1, c1))"

definition on_order_book_update_message_ac_3 ::
  "AutoTrader_ac_3 \<Rightarrow> Instrument \<Rightarrow> int \<Rightarrow> int list \<Rightarrow> int list \<Rightarrow> int list \<Rightarrow> int list
     \<Rightarrow> error + AutoTrader_ac_3 \<times> command list" where
  "on_order_book_update_message_ac_3 s instrument sequence_number
       ask_prices ask_volumes bid_prices bid_volumes =
     (case price_history_updates s instrument ask_prices bid_prices of
        Inl e \<Rightarrow> Inl e
      | Inr s1 \<Rightarrow>
          if is_latest_info s1 then
            (case midpoint_prices s1 of
               Inl e \<Rightarrow> Inl e
             | Inr (midpoint_price_of_etf, midpoint_price_of_future) \<Rightarrow>
                 let multiplier = multiplier_of midpoint_price_of_etf midpoint_price_of_future in
                 (case (if midpoint_price_of_etf > midpoint_price_of_future \<and> instrument = ETF
                        then sell_etf_ac_3 s1 multiplier ask_prices else Inr (s1, [])) of
                    Inl e \<Rightarrow> Inl e
                  | Inr (s2, c2) \<Rightarrow>
                      (case (if midpoint_price_of_etf < midpoint_price_of_future \<and> instrument = ETF
                             then buy_etf_ac_3 s2 multiplier bid_prices else Inr (s2, [])) of
                         Inl e \<Rightarrow> Inl e
                       | Inr (s3, c3) \<Rightarrow> Inr (s3, c2 @ c3))))
          else Inr (s1, []))"

subsection \<open>Variant 2: autotrader\_ac\_4.py\<close>

definition on_order_status_message_ac_4 ::
  "AutoTrader_ac_4 \<Rightarrow> int \<Rightarrow> int \<Rightarrow> int \<Rightarrow> int \<Rightarrow> AutoTrader_ac_4" where
  "on_order_status_message_ac_4 s client_order_id fill_volume remaining_volume fees =
     (let s0 = (if client_order_id = bid_id s
                then s\<lparr>position_orders := position_orders s - fill_volume\<rparr>
                else if client_order_id = ask_id s
                then s\<lparr>position_orders := position_orders s + fill_volume\<rparr>
                else s)
      in if remaining_volume = 0 then
           let s1 = (if client_order_id = bid_id s0 then s0\<lparr>bid_id := 0\<rparr>
                     else if client_order_id = ask_id s0 then s0\<lparr>ask_id := 0\<rparr>
                     else s0)
           in s1\<lparr> bids := bids s1 - {client_order_id}, asks := asks s1 - {client_order_id} \<rparr>
         else s0)"

definition on_error_message_ac_4 :: "AutoTrader_ac_4 \<Rightarrow> int \<Rightarrow> AutoTrader_ac_4" where
  "on_error_message_ac_4 s client_order_id =
     (if client_order_id \<noteq> 0 \<and> (client_order_id \<in> bids s \<or> client_order_id \<in> asks s)
      then on_order_status_message_ac_4 s client_order_id 0 0 0
      else s)"

definition on_order_filled_message_ac_4 ::
  "int \<Rightarrow> int \<Rightarrow> AutoTrader_ac_4 \<Rightarrow> int \<Rightarrow> int \<Rightarrow> int \<Rightarrow> AutoTrader_ac_4 \<times> command list" where
  "on_order_filled_message_ac_4 minimum_bid maximum_ask s client_order_id price volume =
     (if client_order_id \<in> bids s then
        (s\<lparr> position := position s + volume,
            position_orders := position_orders s - volume,
            order_ids := order_ids s + 1 \<rparr>,
         [send_hedge_order (order_ids s) ASK (MIN_BID_NEAREST_TICK minimum_bid) volume])
      else if client_order_id \<in> asks s then
        (s\<lparr> position := position s - volume,
            position_orders := position_orders s + volume,
            order_ids := order_ids s + 1 \<rparr>,
         [send_hedge_order (order_ids s) BID (MAX_ASK_NEAREST_TICK maximum_ask) volume])
      else (s, []))"

text \<open>
  The two flags \<^verbatim>\<open>in_long_etf_position\<close> and \<^verbatim>\<open>in_short_etf_position\<close> are computed
  on every synchronized ETF update and used by no decision (their use is commented out).
  Computing them divides by \<^verbatim>\<open>midpoint_price_of_future\<close>, behind a short-circuit
  \<^verbatim>\<open>and\<close>; Python's true division of integers raises \<^verbatim>\<open>ZeroDivisionError\<close> on a
  zero divisor. The value of a flag is a comparison of floating-point numbers; it is given
  here over the reals, which is exact only up to rounding. Nothing below depends on that
  value. Prices are those of the exchange, far below the range of a float, so the overflow
  that the conversion of a huge integer to a float would raise is left out.
\<close>

definition in_long_etf_position :: "int \<Rightarrow> int \<Rightarrow> int \<Rightarrow> error + bool" where
  "in_long_etf_position position_orders' midpoint_price_of_etf midpoint_price_of_future =
     (if position_orders' \<ge> 0 then
        (if midpoint_price_of_future = 0 then Inl ZeroDivisionError
         else Inr ((real_of_int midpoint_price_of_etf / real_of_int midpoint_price_of_future - 1) / 0.003546
                     > 1 - real_of_int position_orders' / 100))
      else Inr False)"

definition in_short_etf_position :: "int \<Rightarrow> int \<Rightarrow> int \<Rightarrow> error + bool" where
  "in_short_etf_position position_orders' midpoint_price_of_etf midpoint_price_of_future =
     (if position_orders' < 0 then
        (if midpoint_price_of_future = 0 then Inl ZeroDivisionError
         else Inr ((real_of_int midpoint_price_of_etf / real_of_int midpoint_price_of_future - 1) / 0.003546
                     < - 1 - real_of_int position_orders' / 100))
      else Inr False)"

text \<open>The part of the handler from \<^verbatim>\<open># decision-making for etf-future-midpoint-price-arbitrage\<close>
  to its end: both cancels, then the sell and the buy placement. The handler reaches it
  only after it has read the last entries of the ETF histories for the midpoint, so the
  histories are not empty where \<open>last\<close> stands for \<^verbatim>\<open>[-1]\<close>.\<close>

definition decision_making_ac_4 ::
  "AutoTrader_ac_4 \<Rightarrow> int \<Rightarrow> bool \<Rightarrow> bool \<Rightarrow> AutoTrader_ac_4 \<times> command list" where
  "decision_making_ac_4 s multiplier should_sell should_buy =
     (let have_an_active_ask = (ask_id s \<noteq> 0);
          have_an_active_bid = (bid_id s \<noteq> 0);
          c1 = (if have_an_active_ask then [send_cancel_order (ask_id s)] else []);
          s1 = (if have_an_active_ask then s\<lparr>ask_id := 0\<rparr> else s);
          c2 = (if have_an_active_bid then [send_cancel_order (bid_id s1)] else []);
          s2 = (if have_an_active_bid then s1\<lparr>bid_id := 0\<rparr> else s1);
          is_within_limit_after_sell = (position s2 > - POSITION_LIMIT + LOT_SIZE);
          is_within_limit_after_buy = (position s2 < POSITION_LIMIT - LOT_SIZE);
          (s3, c3) =
            (if should_sell \<and> is_within_limit_after_sell then
               let volume = (if position s2 - LOT_SIZE * multiplier \<ge> -100
                             then LOT_SIZE * multiplier else 100 + position s2);
                   s' = s2\<lparr> ask_id := order_ids s2, order_ids := order_ids s2 + 1 \<rparr>
               in (s'\<lparr> asks := insert (ask_id s') (asks s') \<rparr>,
                   [send_insert_order (ask_id s') ASK (last (ask_price_history_of_etf s'))
                      volume GOOD_FOR_DAY])
             else (s2, []));
          (s4, c4) =
            (if should_buy \<and> is_within_limit_after_buy then
               let volume = (if position s3 + LOT_SIZE * multiplier \<le> 100
                             then LOT_SIZE * multiplier else 100 - position s3);
                   s' = s3\<lparr> bid_id := order_ids s3, order_ids := order_ids s3 + 1 \<rparr>
               in (s'\<lparr> bids := insert (bid_id s') (bids s') \<rparr>,
                   [send_insert_order (bid_id s') BID (last (bid_price_history_of_etf s'))
                      volume GOOD_FOR_DAY])
             else (s3, []))
      in (s4, c1 @ c2 @ c3 @ c4))"

definition on_order_book_update_message_ac_4 ::
  "AutoTrader_ac_4 \<Rightarrow> Instrument \<Rightarrow> int \<Rightarrow> int list \<Rightarrow> int list \<Rightarrow> int list \<Rightarrow> int list
     \<Rightarrow> error + AutoTrader_ac_4 \<times> command list" where
  "on_order_book_update_message_ac_4 s instrument sequence_number
       ask_prices ask_volumes bid_prices bid_volumes =
     (case price_history_updates s instrument ask_prices bid_prices of
        Inl e \<Rightarrow> Inl e
      | Inr s1 \<Rightarrow>
          if instrument = FUTURE then Inr (s1, [])
          else if \<not> is_latest_info s1 then Inr (s1, [])
          else
            (case midpoint_prices s1 of
               Inl e \<Rightarrow> Inl e
             | Inr (midpoint_price_of_etf, midpoint_price_of_future) \<Rightarrow>
                 let multiplier = multiplier_of midpoint_price_of_etf midpoint_price_of_future;
                     significant_etf_overpricing = (midpoint_price_of_etf > midpoint_price_of_future)
                 in (case in_long_etf_position (position_orders s1)
                            midpoint_price_of_etf midpoint_price_of_future of
                       Inl e \<Rightarrow> Inl e
                     | Inr _ \<Rightarrow>
                         let should_sell = significant_etf_overpricing;
                             significant_etf_underpricing =
                               (midpoint_price_of_etf < midpoint_price_of_future)
                         in (case in_short_etf_position (position_orders s1)
                                    midpoint_price_of_etf midpoint_price_of_future of
                               Inl e \<Rightarrow> Inl e
                             | Inr _ \<Rightarrow>
                                 let should_buy = significant_etf_underpricing
                                 in Inr (decision_making_ac_4 s1 multiplier should_sell should_buy)))))"

subsection \<open>Serial delivery of events\<close>

text \<open>
  Events are handled one at a time, each to completion. An exception that leaves a
  handler ends the run: the run's value is then the exception.
\<close>

fun handle_ac_3 ::
  "int \<Rightarrow> int \<Rightarrow> AutoTrader_ac_3 \<Rightarrow> event \<Rightarrow> error + AutoTrader_ac_3 \<times> command list" where
  "handle_ac_3 mb ma s (Error_message i) = Inr (on_error_message_ac_3 s i, [])"
| "handle_ac_3 mb ma s (Hedge_filled_message i p v) = Inr (s, [])"
| "handle_ac_3 mb ma s (Order_filled_message i p v) = Inr (on_order_filled_message_ac_3 mb ma s i p v)"
| "handle_ac_3 mb ma s (Order_status_message i f r fees) =
     Inr (on_order_status_message_ac_3 s i f r fees, [])"
| "handle_ac_3 mb ma s (Trade_ticks_message ins n ap av bp bv) = Inr (s, [])"
| "handle_ac_3 mb ma s (Order_book_update_message ins n ap av bp bv) =
     on_order_book_update_message_ac_3 s ins n ap av bp bv"

fun run_ac_3 ::
  "int \<Rightarrow> int \<Rightarrow> AutoTrader_ac_3 \<Rightarrow> event list \<Rightarrow> error + AutoTrader_ac_3 \<times> command list" where
  "run_ac_3 mb ma s [] = Inr (s, [])"
| "run_ac_3 mb ma s (ev # evs) =
     (case handle_ac_3 mb ma s ev of
        Inl e \<Rightarrow> Inl e
      | Inr (s1, c1) \<Rightarrow>
          (case run_ac_3 mb ma s1 evs of
             Inl e \<Rightarrow> Inl e
           | Inr (s2, c2) \<Rightarrow> Inr (s2, c1 @ c2)))"

fun handle_ac_4 ::
  "int \<Rightarrow> int \<Rightarrow> AutoTrader_ac_4 \<Rightarrow> event \<Rightarrow> error + AutoTrader_ac_4 \<times> command list" where
  "handle_ac_4 mb ma s (Error_message i) = Inr (on_error_message_ac_4 s i, [])"
| "handle_ac_4 mb ma s (Hedge_filled_message i p v) = Inr (s, [])"
| "handle_ac_4 mb ma s (Order_filled_message i p v) = Inr (on_order_filled_message_ac_4 mb ma s i p v)"
| "handle_ac_4 mb ma s (Order_status_message i f r fees) =
     Inr (on_order_status_message_ac_4 s i f r fees, [])"
| "handle_ac_4 mb ma s (Trade_ticks_message ins n ap av bp bv) = Inr (s, [])"
| "handle_ac_4 mb ma s (Order_book_update_message ins n ap av bp bv) =
     on_order_book_update_message_ac_4 s ins n ap av bp bv"

fun run_ac_4 ::
  "int \<Rightarrow> int \<Rightarrow> AutoTrader_ac_4 \<Rightarrow> event list \<Rightarrow> error + AutoTrader_ac_4 \<times> command list" where
  "run_ac_4 mb ma s [] = Inr (s, [])"
| "run_ac_4 mb ma s (ev # evs) =
     (case handle_ac_4 mb ma s ev of
        Inl e \<Rightarrow> Inl e
      | Inr (s1, c1) \<Rightarrow>
          (case run_ac_4 mb ma s1 evs of
             Inl e \<Rightarrow> Inl e
           | Inr (s2, c2) \<Rightarrow> Inr (s2, c1 @ c2)))"

subsection \<open>Sample events\<close>

text \<open>
  An order book with a single price level on each side (zeros fill the other four
  levels, as the exchange does), and the snapshot of an empty book.
\<close>

definition one_level_book :: "Instrument \<Rightarrow> int \<Rightarrow> int \<Rightarrow> int \<Rightarrow> event" where
  "one_level_book instrument sequence_number ask bid =
     Order_book_update_message instrument sequence_number
       [ask, 0, 0, 0, 0] [5, 0, 0, 0, 0] [bid, 0, 0, 0, 0] [5, 0, 0, 0, 0]"

definition empty_book :: "Instrument \<Rightarrow> int \<Rightarrow> event" where
  "empty_book instrument sequence_number =
     Order_book_update_message instrument sequence_number
       [0, 0, 0, 0, 0] [0, 0, 0, 0, 0] [0, 0, 0, 0, 0] [0, 0, 0, 0, 0]"

text \<open>
  Two rounds of book updates that leave a bid (identifier 1) and an ask (identifier 2)
  tracked: the ETF is first below, then above the future.
\<close>

definition quotes_on_both_sides :: "event list" where
  "quotes_on_both_sides =
     [one_level_book FUTURE 1 2000 2000, one_level_book ETF 1 1000 1000,
      one_level_book FUTURE 2 500 500, one_level_book ETF 2 1000 1000]"

subsection \<open>Identifiers issued so far\<close>

text \<open>
  Every tracked identifier and every occupied slot holds a value that the counter
  \<open>order_ids\<close> has already handed out; since each placement takes a fresh value, no
  identifier is in both side sets and the two slots never hold the same order.
\<close>

definition ids_issued :: "'a AutoTrader_ac_3_scheme \<Rightarrow> bool" where
  "ids_issued s \<longleftrightarrow>
     (\<forall>i. i \<in> bids s \<longrightarrow> i \<notin> asks s \<and> i < order_ids s) \<and>
     (\<forall>i. i \<in> asks s \<longrightarrow> i < order_ids s) \<and>
     (bid_id s = 0 \<or> bid_id s < order_ids s) \<and> (ask_id s = 0 \<or> ask_id s < order_ids s) \<and>
     (bid_id s \<noteq> 0 \<longrightarrow> bid_id s \<noteq> ask_id s)"

section \<open>Auxiliary facts\<close>

lemmas consts_defs = LOT_SIZE_def POSITION_LIMIT_def TICK_SIZE_IN_CENTS_def

lemmas handler_defs = index_first_def index_last_def price_history_updates_def
  is_latest_info_def midpoint_prices_def multiplier_of_def
  on_order_status_message_ac_3_def on_error_message_ac_3_def on_order_filled_message_ac_3_def
  determine_volume_sell_ac_3_def determine_volume_buy_ac_3_def sell_etf_ac_3_def buy_etf_ac_3_def
  on_order_book_update_message_ac_3_def
  on_order_status_message_ac_4_def on_error_message_ac_4_def on_order_filled_message_ac_4_def
  in_long_etf_position_def in_short_etf_position_def decision_making_ac_4_def
  on_order_book_update_message_ac_4_def MIN_BID_NEAREST_TICK_def MAX_ASK_NEAREST_TICK_def
  one_level_book_def empty_book_def init_ac_3_def init_ac_4_def

lemma determine_volume_sell_ac_3_eq:
  "determine_volume_sell_ac_3 pos m =
     Inr (if pos - LOT_SIZE * m \<ge> -100 then LOT_SIZE * m else 100 + pos)"
  by (simp add: determine_volume_sell_ac_3_def Let_def)

lemma determine_volume_buy_ac_3_eq:
  "determine_volume_buy_ac_3 pos m =
     Inr (if pos + LOT_SIZE * m \<le> 100 then LOT_SIZE * m else 100 - pos)"
  by (simp add: determine_volume_buy_ac_3_def Let_def add.commute)

lemma price_history_updates_ids:
  "price_history_updates s ins ap bp = Inr s1 \<Longrightarrow>
     order_ids s1 = order_ids s \<and> bids s1 = bids s \<and> asks s1 = asks s \<and>
     ask_id s1 = ask_id s \<and> bid_id s1 = bid_id s \<and> position s1 = position s \<and>
     ask_price s1 = ask_price s \<and> bid_price s1 = bid_price s \<and>
     AutoTrader_ac_3.more s1 = AutoTrader_ac_3.more s"
  by (auto simp: price_history_updates_def index_first_def Let_def split: list.splits if_splits)

lemma price_history_updates_issued:
  "price_history_updates s ins ap bp = Inr s1 \<Longrightarrow> ids_issued s \<Longrightarrow> ids_issued s1"
  using price_history_updates_ids[of s ins ap bp s1] by (simp add: ids_issued_def)

lemma sell_etf_ac_3_eq:
  "sell_etf_ac_3 s m ap =
     Inr (if position s > - POSITION_LIMIT + LOT_SIZE
          then (s\<lparr> ask_id := order_ids s, order_ids := order_ids s + 1,
                   asks := insert (order_ids s) (asks s) \<rparr>,
                (if ask_id s \<noteq> 0 then [send_cancel_order (ask_id s)] else []) @
                [send_insert_order (order_ids s) ASK (ap ! 0)
                   (if position s - LOT_SIZE * m \<ge> -100 then LOT_SIZE * m else 100 + position s)
                   GOOD_FOR_DAY])
          else (s\<lparr> ask_id := 0 \<rparr>,
                if ask_id s \<noteq> 0 then [send_cancel_order (ask_id s)] else []))"
  by (simp add: sell_etf_ac_3_def determine_volume_sell_ac_3_eq Let_def)

lemma buy_etf_ac_3_eq:
  "buy_etf_ac_3 s m bp =
     Inr (if position s < POSITION_LIMIT - LOT_SIZE
          then (s\<lparr> bid_id := order_ids s, order_ids := order_ids s + 1,
                   bids := insert (order_ids s) (bids s) \<rparr>,
                (if bid_id s \<noteq> 0 then [send_cancel_order (bid_id s)] else []) @
                [send_insert_order (order_ids s) BID (bp ! 0)
                   (if position s + LOT_SIZE * m \<le> 100 then LOT_SIZE * m else 100 - position s)
                   GOOD_FOR_DAY])
          else (s\<lparr> bid_id := 0 \<rparr>,
                if bid_id s \<noteq> 0 then [send_cancel_order (bid_id s)] else []))"
  by (simp add: buy_etf_ac_3_def determine_volume_buy_ac_3_eq Let_def)

lemma ids_issued_place_ask:
  "ids_issued s \<Longrightarrow>
   ids_issued (s\<lparr> ask_id := order_ids s, order_ids := order_ids s + 1,
                  asks := insert (order_ids s) (asks s) \<rparr>)"
  unfolding ids_issued_def by (simp; fastforce)

lemma ids_issued_place_bid:
  "ids_issued s \<Longrightarrow>
   ids_issued (s\<lparr> bid_id := order_ids s, order_ids := order_ids s + 1,
                  bids := insert (order_ids s) (bids s) \<rparr>)"
  unfolding ids_issued_def by (simp; fastforce)

lemma ids_issued_clear_ask: "ids_issued s \<Longrightarrow> ids_issued (s\<lparr> ask_id := 0 \<rparr>)"
  by (simp add: ids_issued_def)

lemma ids_issued_clear_bid: "ids_issued s \<Longrightarrow> ids_issued (s\<lparr> bid_id := 0 \<rparr>)"
  by (simp add: ids_issued_def)

lemma price_history_updates_Inr:
  "ap \<noteq> [] \<Longrightarrow> bp \<noteq> [] \<Longrightarrow> \<exists>s1. price_history_updates s ins ap bp = Inr s1"
  by (cases ap; cases bp) (simp_all add: price_history_updates_def index_first_def Let_def)

lemma price_history_updates_Inl:
  "price_history_updates s ins ap bp = Inl e \<Longrightarrow> ap = [] \<or> bp = []"
  by (cases ap; cases bp) (simp_all add: price_history_updates_def index_first_def Let_def)

lemma on_order_book_update_message_ac_3_eq:
  assumes "price_history_updates s ins ap bp = Inr s1"
  shows "on_order_book_update_message_ac_3 s ins n ap av bp bv =
     (if is_latest_info s1 then
        (case midpoint_prices s1 of
           Inl e \<Rightarrow> Inl e
         | Inr (me, mf) \<Rightarrow>
             if me > mf \<and> ins = ETF then sell_etf_ac_3 s1 (multiplier_of me mf) ap
             else if me < mf \<and> ins = ETF then buy_etf_ac_3 s1 (multiplier_of me mf) bp
             else Inr (s1, []))
      else Inr (s1, []))"
  using assms
  by (simp add: on_order_book_update_message_ac_3_def sell_etf_ac_3_eq buy_etf_ac_3_eq Let_def
      split: sum.splits prod.splits)

lemma on_order_book_update_message_ac_3_issued:
  assumes r: "on_order_book_update_message_ac_3 s ins n ap av bp bv = Inr (s', c)"
    and i: "ids_issued s"
  shows "ids_issued s'"
proof -
  obtain s1 where s1: "price_history_updates s ins ap bp = Inr s1"
    using r by (cases "price_history_updates s ins ap bp")
      (simp_all add: on_order_book_update_message_ac_3_def)
  have i1: "ids_issued s1" using price_history_updates_issued[OF s1 i] .
  note eq = on_order_book_update_message_ac_3_eq[OF s1, of n av bv]
  show ?thesis
  proof (cases "is_latest_info s1")
    case False
    then have "s' = s1" using r eq by simp
    then show ?thesis using i1 by simp
  next
    case True
    then obtain me mf where m: "midpoint_prices s1 = Inr (me, mf)"
      using r eq by (cases "midpoint_prices s1") auto
    consider (sell) "me > mf \<and> ins = ETF" | (buy) "\<not> (me > mf \<and> ins = ETF)" "me < mf \<and> ins = ETF"
      | (none) "\<not> (me > mf \<and> ins = ETF)" "\<not> (me < mf \<and> ins = ETF)" by blast
    then show ?thesis
    proof cases
      case sell
      then have "sell_etf_ac_3 s1 (multiplier_of me mf) ap = Inr (s', c)"
        using r eq True m by simp
      then have "s' = s1\<lparr> ask_id := order_ids s1, order_ids := order_ids s1 + 1,
                   asks := insert (order_ids s1) (asks s1) \<rparr> \<or> s' = s1\<lparr> ask_id := 0 \<rparr>"
        unfolding sell_etf_ac_3_eq by (simp split: if_splits)
      then show ?thesis using ids_issued_place_ask[OF i1] ids_issued_clear_ask[OF i1] by auto
    next
      case buy
      then have "buy_etf_ac_3 s1 (multiplier_of me mf) bp = Inr (s', c)"
        using r eq True m by simp
      then have "s' = s1\<lparr> bid_id := order_ids s1, order_ids := order_ids s1 + 1,
                   bids := insert (order_ids s1) (bids s1) \<rparr> \<or> s' = s1\<lparr> bid_id := 0 \<rparr>"
        unfolding buy_etf_ac_3_eq by (simp split: if_splits)
      then show ?thesis using ids_issued_place_bid[OF i1] ids_issued_clear_bid[OF i1] by auto
    next
      case none
      then have "s' = s1" using r eq True m by (simp split: if_splits)
      then show ?thesis using i1 by simp
    qed
  qed
qed

lemma decision_making_ac_4_eq:
  assumes "\<not> (ss \<and> sb)"
  shows "decision_making_ac_4 s m ss sb =
     (let cancels = (if ask_id s \<noteq> 0 then [send_cancel_order (ask_id s)] else []) @
                    (if bid_id s \<noteq> 0 then [send_cancel_order (bid_id s)] else [])
      in if ss \<and> position s > - POSITION_LIMIT + LOT_SIZE then
           (s\<lparr> ask_id := order_ids s, bid_id := 0, order_ids := order_ids s + 1,
               asks := insert (order_ids s) (asks s) \<rparr>,
            cancels @ [send_insert_order (order_ids s) ASK (last (ask_price_history_of_etf s))
                         (if position s - LOT_SIZE * m \<ge> -100 then LOT_SIZE * m
                          else 100 + position s) GOOD_FOR_DAY])
         else if sb \<and> position s < POSITION_LIMIT - LOT_SIZE then
           (s\<lparr> ask_id := 0, bid_id := order_ids s, order_ids := order_ids s + 1,
               bids := insert (order_ids s) (bids s) \<rparr>,
            cancels @ [send_insert_order (order_ids s) BID (last (bid_price_history_of_etf s))
                         (if position s + LOT_SIZE * m \<le> 100 then LOT_SIZE * m
                          else 100 - position s) GOOD_FOR_DAY])
         else (s\<lparr> ask_id := 0, bid_id := 0 \<rparr>, cancels))"
  using assms by (simp add: decision_making_ac_4_def Let_def)

lemma decision_making_ac_4_issued:
  assumes i: "ids_issued s" and x: "\<not> (ss \<and> sb)"
  shows "ids_issued (fst (decision_making_ac_4 s m ss sb))"
proof -
  have a: "ids_issued (s\<lparr> ask_id := order_ids s, bid_id := 0, order_ids := order_ids s + 1,
               asks := insert (order_ids s) (asks s) \<rparr>)"
  proof -
    have e: "s\<lparr> ask_id := order_ids s, bid_id := 0, order_ids := order_ids s + 1,
               asks := insert (order_ids s) (asks s) \<rparr> =
          s\<lparr> bid_id := 0, ask_id := order_ids s, order_ids := order_ids s + 1,
               asks := insert (order_ids s) (asks s) \<rparr>"
      by simp
    show ?thesis
      unfolding e using ids_issued_place_ask[OF ids_issued_clear_bid[OF i]] by simp
  qed
  have b: "ids_issued (s\<lparr> ask_id := 0, bid_id := order_ids s, order_ids := order_ids s + 1,
               bids := insert (order_ids s) (bids s) \<rparr>)"
    using ids_issued_place_bid[OF ids_issued_clear_ask[OF i]] by simp
  have c: "ids_issued (s\<lparr> ask_id := 0, bid_id := 0 \<rparr>)"
    using ids_issued_clear_bid[OF ids_issued_clear_ask[OF i]] by simp
  show ?thesis
    unfolding decision_making_ac_4_eq[OF x] Let_def using a b c by simp
qed

lemma on_order_book_update_message_ac_4_eq:
  assumes "price_history_updates s ins ap bp = Inr s1"
  shows "on_order_book_update_message_ac_4 s ins n ap av bp bv =
     (if ins = FUTURE \<or> \<not> is_latest_info s1 then Inr (s1, [])
      else (case midpoint_prices s1 of
              Inl e \<Rightarrow> Inl e
            | Inr (me, mf) \<Rightarrow>
                if mf = 0 then Inl ZeroDivisionError
                else Inr (decision_making_ac_4 s1 (multiplier_of me mf) (me > mf) (me < mf))))"
  using assms
  by (simp add: on_order_book_update_message_ac_4_def in_long_etf_position_def
      in_short_etf_position_def Let_def split: sum.splits prod.splits)

lemma on_order_book_update_message_ac_4_issued:
  assumes r: "on_order_book_update_message_ac_4 s ins n ap av bp bv = Inr (s', c)"
    and i: "ids_issued s"
  shows "ids_issued s'"
proof -
  obtain s1 where s1: "price_history_updates s ins ap bp = Inr s1"
    using r by (cases "price_history_updates s ins ap bp")
      (simp_all add: on_order_book_update_message_ac_4_def)
  have i1: "ids_issued s1" using price_history_updates_issued[OF s1 i] .
  note eq = on_order_book_update_message_ac_4_eq[OF s1, of n av bv]
  show ?thesis
  proof (cases "ins = FUTURE \<or> \<not> is_latest_info s1")
    case True
    then have "s' = s1" using r eq by auto
    then show ?thesis using i1 by simp
  next
    case False
    then obtain me mf where m: "midpoint_prices s1 = Inr (me, mf)"
      using r eq by (cases "midpoint_prices s1") auto
    have "s' = fst (decision_making_ac_4 s1 (multiplier_of me mf) (me > mf) (me < mf))"
      using r eq False m by (auto split: if_splits)
    then show ?thesis using decision_making_ac_4_issued[OF i1, of "me > mf" "me < mf"] by simp
  qed
qed

lemma on_order_status_message_ac_3_issued:
  "ids_issued s \<Longrightarrow> ids_issued (on_order_status_message_ac_3 s i f r fees)"
  unfolding on_order_status_message_ac_3_def Let_def ids_issued_def by simp

lemma on_order_status_message_ac_4_issued:
  "ids_issued s \<Longrightarrow> ids_issued (on_order_status_message_ac_4 s i f r fees)"
  unfolding on_order_status_message_ac_4_def Let_def ids_issued_def by simp

lemma on_error_message_ac_3_issued:
  "ids_issued s \<Longrightarrow> ids_issued (on_error_message_ac_3 s i)"
  by (simp add: on_error_message_ac_3_def on_order_status_message_ac_3_issued)

lemma on_error_message_ac_4_issued:
  "ids_issued s \<Longrightarrow> ids_issued (on_error_message_ac_4 s i)"
  by (simp add: on_error_message_ac_4_def on_order_status_message_ac_4_issued)

lemma on_order_filled_message_ac_3_issued:
  "ids_issued s \<Longrightarrow> ids_issued (fst (on_order_filled_message_ac_3 mb ma s i p v))"
  unfolding on_order_filled_message_ac_3_def ids_issued_def by (simp; fastforce)

lemma on_order_filled_message_ac_4_issued:
  "ids_issued s \<Longrightarrow> ids_issued (fst (on_order_filled_message_ac_4 mb ma s i p v))"
  unfolding on_order_filled_message_ac_4_def ids_issued_def by (simp; fastforce)

lemma handle_ac_3_issued:
  assumes "handle_ac_3 mb ma s ev = Inr (s', c)" and "ids_issued s"
  shows "ids_issued s'"
proof (cases ev)
  case (Error_message i)
  then show ?thesis using assms on_error_message_ac_3_issued[of s i] by auto
next
  case (Hedge_filled_message i p v)
  then show ?thesis using assms by auto
next
  case (Order_filled_message i p v)
  then show ?thesis using assms on_order_filled_message_ac_3_issued[of s mb ma i p v] by auto
next
  case (Order_status_message i f r fees)
  then show ?thesis using assms on_order_status_message_ac_3_issued[of s i f r fees] by auto
next
  case (Trade_ticks_message ins n ap av bp bv)
  then show ?thesis using assms by auto
next
  case (Order_book_update_message ins n ap av bp bv)
  then show ?thesis
    using assms on_order_book_update_message_ac_3_issued[of s ins n ap av bp bv s' c] by simp
qed

lemma handle_ac_4_issued:
  assumes "handle_ac_4 mb ma s ev = Inr (s', c)" and "ids_issued s"
  shows "ids_issued s'"
proof (cases ev)
  case (Error_message i)
  then show ?thesis using assms on_error_message_ac_4_issued[of s i] by auto
next
  case (Hedge_filled_message i p v)
  then show ?thesis using assms by auto
next
  case (Order_filled_message i p v)
  then show ?thesis using assms on_order_filled_message_ac_4_issued[of s mb ma i p v] by auto
next
  case (Order_status_message i f r fees)
  then show ?thesis using assms on_order_status_message_ac_4_issued[of s i f r fees] by auto
next
  case (Trade_ticks_message ins n ap av bp bv)
  then show ?thesis using assms by auto
next
  case (Order_book_update_message ins n ap av bp bv)
  then show ?thesis
    using assms on_order_book_update_message_ac_4_issued[of s ins n ap av bp bv s' c] by simp
qed

lemma run_ac_3_issued:
  "run_ac_3 mb ma s evs = Inr (s', c) \<Longrightarrow> ids_issued s \<Longrightarrow> ids_issued s'"
proof (induction evs arbitrary: s c)
  case Nil
  then show ?case by simp
next
  case (Cons ev evs)
  from Cons.prems(1) obtain s1 c1 where h: "handle_ac_3 mb ma s ev = Inr (s1, c1)"
    by (cases "handle_ac_3 mb ma s ev") auto
  with Cons.prems(1) obtain c2 where r: "run_ac_3 mb ma s1 evs = Inr (s', c2)"
    by (cases "run_ac_3 mb ma s1 evs") auto
  show ?case using Cons.IH[OF r handle_ac_3_issued[OF h Cons.prems(2)]] .
qed

lemma run_ac_4_issued:
  "run_ac_4 mb ma s evs = Inr (s', c) \<Longrightarrow> ids_issued s \<Longrightarrow> ids_issued s'"
proof (induction evs arbitrary: s c)
  case Nil
  then show ?case by simp
next
  case (Cons ev evs)
  from Cons.prems(1) obtain s1 c1 where h: "handle_ac_4 mb ma s ev = Inr (s1, c1)"
    by (cases "handle_ac_4 mb ma s ev") auto
  with Cons.prems(1) obtain c2 where r: "run_ac_4 mb ma s1 evs = Inr (s', c2)"
    by (cases "run_ac_4 mb ma s1 evs") auto
  show ?case using Cons.IH[OF r handle_ac_4_issued[OF h Cons.prems(2)]] .
qed

lemma init_ac_3_issued: "ids_issued init_ac_3"
  by (simp add: ids_issued_def init_ac_3_def)

lemma init_ac_4_issued: "ids_issued init_ac_4"
  by (simp add: ids_issued_def init_ac_4_def)

lemma reachable_ac_3_issued:
  "run_ac_3 mb ma init_ac_3 evs = Inr (s, c) \<Longrightarrow> ids_issued s"
  using run_ac_3_issued[OF _ init_ac_3_issued] .

lemma reachable_ac_4_issued:
  "run_ac_4 mb ma init_ac_4 evs = Inr (s, c) \<Longrightarrow> ids_issued s"
  using run_ac_4_issued[OF _ init_ac_4_issued] .

lemma multiplier_of_pos: "1 \<le> multiplier_of me mf"
proof -
  have "0 \<le> \<bar>me - mf\<bar> div 100" by (rule pos_imp_zdiv_nonneg_iff[THEN iffD2]) simp_all
  then show ?thesis by (simp add: multiplier_of_def TICK_SIZE_IN_CENTS_def)
qed

lemma price_history_updates_last:
  assumes "price_history_updates s ETF ap bp = Inr s1"
  shows "last (ask_price_history_of_etf s1) = ap ! 0 \<and> last (bid_price_history_of_etf s1) = bp ! 0"
  using assms
  by (cases ap; cases bp) (auto simp: price_history_updates_def index_first_def Let_def)

lemma on_order_book_update_message_ac_3_cases:
  assumes r: "on_order_book_update_message_ac_3 s ins n ap av bp bv = Inr (s', c)"
  obtains (deferred) s1 where "price_history_updates s ins ap bp = Inr s1" "s' = s1" "c = []"
  | (sell) s1 me mf where "price_history_updates s ins ap bp = Inr s1" "is_latest_info s1"
      "midpoint_prices s1 = Inr (me, mf)" "me > mf" "ins = ETF"
      "sell_etf_ac_3 s1 (multiplier_of me mf) ap = Inr (s', c)"
  | (buy) s1 me mf where "price_history_updates s ins ap bp = Inr s1" "is_latest_info s1"
      "midpoint_prices s1 = Inr (me, mf)" "me < mf" "ins = ETF"
      "buy_etf_ac_3 s1 (multiplier_of me mf) bp = Inr (s', c)"
proof -
  obtain s1 where s1: "price_history_updates s ins ap bp = Inr s1"
    using r by (cases "price_history_updates s ins ap bp")
      (simp_all add: on_order_book_update_message_ac_3_def)
  note eq = on_order_book_update_message_ac_3_eq[OF s1, of n av bv]
  show thesis
  proof (cases "is_latest_info s1")
    case False
    then have "s' = s1" "c = []" using r eq by simp_all
    then show thesis using s1 deferred by blast
  next
    case True
    then obtain me mf where m: "midpoint_prices s1 = Inr (me, mf)"
      using r eq by (cases "midpoint_prices s1") auto
    consider (a) "me > mf \<and> ins = ETF" | (b) "\<not> (me > mf \<and> ins = ETF)" "me < mf \<and> ins = ETF"
      | (n) "\<not> (me > mf \<and> ins = ETF)" "\<not> (me < mf \<and> ins = ETF)" by blast
    then show thesis
    proof cases
      case a
      then have "sell_etf_ac_3 s1 (multiplier_of me mf) ap = Inr (s', c)"
        using r eq True m by simp
      then show thesis using sell[OF s1 True m] a by blast
    next
      case b
      then have "buy_etf_ac_3 s1 (multiplier_of me mf) bp = Inr (s', c)"
        using r eq True m by simp
      then show thesis using buy[OF s1 True m] b by blast
    next
      case n
      then have "s' = s1" "c = []" using r eq True m by (simp_all split: if_splits)
      then show thesis using s1 deferred by blast
    qed
  qed
qed

lemma on_order_book_update_message_ac_4_cases:
  assumes r: "on_order_book_update_message_ac_4 s ins n ap av bp bv = Inr (s', c)"
  obtains (deferred) s1 where "price_history_updates s ins ap bp = Inr s1"
      "ins = FUTURE \<or> \<not> is_latest_info s1" "s' = s1" "c = []"
  | (decide) s1 me mf where "price_history_updates s ins ap bp = Inr s1" "is_latest_info s1"
      "midpoint_prices s1 = Inr (me, mf)" "mf \<noteq> 0" "ins = ETF"
      "decision_making_ac_4 s1 (multiplier_of me mf) (me > mf) (me < mf) = (s', c)"
proof -
  obtain s1 where s1: "price_history_updates s ins ap bp = Inr s1"
    using r by (cases "price_history_updates s ins ap bp")
      (simp_all add: on_order_book_update_message_ac_4_def)
  note eq = on_order_book_update_message_ac_4_eq[OF s1, of n av bv]
  show thesis
  proof (cases "ins = FUTURE \<or> \<not> is_latest_info s1")
    case True
    then have "s' = s1" "c = []" using r eq by auto
    then show thesis using s1 True deferred by blast
  next
    case False
    then have e: "ins = ETF" by (cases ins) simp_all
    from False obtain me mf where m: "midpoint_prices s1 = Inr (me, mf)"
      using r eq by (cases "midpoint_prices s1") auto
    have z: "mf \<noteq> 0" using r eq False m by (auto split: if_splits)
    have "decision_making_ac_4 s1 (multiplier_of me mf) (me > mf) (me < mf) = (s', c)"
      using r eq False m z by simp
    then show thesis using decide[OF s1 _ m z e] False by blast
  qed
qed

lemma sell_etf_ac_3_quotes:
  assumes r: "sell_etf_ac_3 s m ap = Inr (s', c)" and m: "1 \<le> m"
    and q: "send_insert_order i sd p v l \<in> set c"
  shows "sd = ASK \<and> p = ap ! 0 \<and> i = order_ids s \<and> 0 < v \<and> - POSITION_LIMIT \<le> position s - v"
proof (cases "position s > - POSITION_LIMIT + LOT_SIZE")
  case True
  then have "c = (if ask_id s \<noteq> 0 then [send_cancel_order (ask_id s)] else []) @
                [send_insert_order (order_ids s) ASK (ap ! 0)
                   (if position s - LOT_SIZE * m \<ge> -100 then LOT_SIZE * m else 100 + position s)
                   GOOD_FOR_DAY]"
    using r unfolding sell_etf_ac_3_eq by simp
  with q have "sd = ASK \<and> p = ap ! 0 \<and> i = order_ids s \<and>
      v = (if position s - LOT_SIZE * m \<ge> -100 then LOT_SIZE * m else 100 + position s)"
    by (simp split: if_splits)
  then show ?thesis using True m by (simp add: consts_defs split: if_splits)
next
  case False
  then have "c = (if ask_id s \<noteq> 0 then [send_cancel_order (ask_id s)] else [])"
    using r unfolding sell_etf_ac_3_eq by simp
  with q show ?thesis by (simp split: if_splits)
qed

lemma buy_etf_ac_3_quotes:
  assumes r: "buy_etf_ac_3 s m bp = Inr (s', c)" and m: "1 \<le> m"
    and q: "send_insert_order i sd p v l \<in> set c"
  shows "sd = BID \<and> p = bp ! 0 \<and> i = order_ids s \<and> 0 < v \<and> position s + v \<le> POSITION_LIMIT"
proof (cases "position s < POSITION_LIMIT - LOT_SIZE")
  case True
  then have "c = (if bid_id s \<noteq> 0 then [send_cancel_order (bid_id s)] else []) @
                [send_insert_order (order_ids s) BID (bp ! 0)
                   (if position s + LOT_SIZE * m \<le> 100 then LOT_SIZE * m else 100 - position s)
                   GOOD_FOR_DAY]"
    using r unfolding buy_etf_ac_3_eq by simp
  with q have "sd = BID \<and> p = bp ! 0 \<and> i = order_ids s \<and>
      v = (if position s + LOT_SIZE * m \<le> 100 then LOT_SIZE * m else 100 - position s)"
    by (simp split: if_splits)
  then show ?thesis using True m by (simp add: consts_defs split: if_splits)
next
  case False
  then have "c = (if bid_id s \<noteq> 0 then [send_cancel_order (bid_id s)] else [])"
    using r unfolding buy_etf_ac_3_eq by simp
  with q show ?thesis by (simp split: if_splits)
qed

lemma sell_etf_ac_3_position: "sell_etf_ac_3 s m ap = Inr (s', c) \<Longrightarrow> position s' = position s"
  unfolding sell_etf_ac_3_eq by (auto split: if_splits)

lemma buy_etf_ac_3_position: "buy_etf_ac_3 s m bp = Inr (s', c) \<Longrightarrow> position s' = position s"
  unfolding buy_etf_ac_3_eq by (auto split: if_splits)

lemma decision_making_ac_4_position:
  "\<not> (ss \<and> sb) \<Longrightarrow> position (fst (decision_making_ac_4 s m ss sb)) = position s"
  by (simp add: decision_making_ac_4_eq Let_def)

lemma decision_making_ac_4_quotes:
  assumes r: "decision_making_ac_4 s m ss sb = (s', c)" and x: "\<not> (ss \<and> sb)" and m: "1 \<le> m"
    and q: "send_insert_order i sd p v l \<in> set c"
  shows "i = order_ids s \<and> 0 < v \<and>
         (sd = ASK \<and> ss \<and> p = last (ask_price_history_of_etf s) \<and> - POSITION_LIMIT \<le> position s - v
          \<or> sd = BID \<and> sb \<and> p = last (bid_price_history_of_etf s) \<and> position s + v \<le> POSITION_LIMIT)"
proof -
  let ?cancels = "(if ask_id s \<noteq> 0 then [send_cancel_order (ask_id s)] else []) @
                  (if bid_id s \<noteq> 0 then [send_cancel_order (bid_id s)] else [])"
  have nc: "send_insert_order i sd p v l \<notin> set ?cancels" by simp
  consider (a) "ss \<and> position s > - POSITION_LIMIT + LOT_SIZE"
    | (b) "\<not> (ss \<and> position s > - POSITION_LIMIT + LOT_SIZE)" "sb \<and> position s < POSITION_LIMIT - LOT_SIZE"
    | (n) "\<not> (ss \<and> position s > - POSITION_LIMIT + LOT_SIZE)" "\<not> (sb \<and> position s < POSITION_LIMIT - LOT_SIZE)"
    by blast
  then show ?thesis
  proof cases
    case a
    then have "c = ?cancels @ [send_insert_order (order_ids s) ASK (last (ask_price_history_of_etf s))
                         (if position s - LOT_SIZE * m \<ge> -100 then LOT_SIZE * m
                          else 100 + position s) GOOD_FOR_DAY]"
      using r unfolding decision_making_ac_4_eq[OF x] Let_def by simp
    with q nc have "sd = ASK \<and> p = last (ask_price_history_of_etf s) \<and> i = order_ids s \<and>
      v = (if position s - LOT_SIZE * m \<ge> -100 then LOT_SIZE * m else 100 + position s)"
      by (simp split: if_splits)
    then show ?thesis using a m by (simp add: consts_defs split: if_splits)
  next
    case b
    then have "c = ?cancels @ [send_insert_order (order_ids s) BID (last (bid_price_history_of_etf s))
                         (if position s + LOT_SIZE * m \<le> 100 then LOT_SIZE * m
                          else 100 - position s) GOOD_FOR_DAY]"
      using r unfolding decision_making_ac_4_eq[OF x] Let_def by auto
    with q nc have "sd = BID \<and> p = last (bid_price_history_of_etf s) \<and> i = order_ids s \<and>
      v = (if position s + LOT_SIZE * m \<le> 100 then LOT_SIZE * m else 100 - position s)"
      by (simp split: if_splits)
    then show ?thesis using b m by (simp add: consts_defs split: if_splits)
  next
    case n
    then have "c = ?cancels" using r unfolding decision_making_ac_4_eq[OF x] Let_def by auto
    with q nc show ?thesis by simp
  qed
qed

lemma on_order_status_message_ac_3_position:
  "position (on_order_status_message_ac_3 s j f r fees) = position s"
  by (simp add: on_order_status_message_ac_3_def Let_def)

lemma on_order_status_message_ac_4_position:
  "position (on_order_status_message_ac_4 s j f r fees) = position s"
  by (simp add: on_order_status_message_ac_4_def Let_def)

lemma on_order_status_message_ac_3_noop:
  "i \<notin> bids s \<Longrightarrow> i \<notin> asks s \<Longrightarrow> i \<noteq> bid_id s \<Longrightarrow> i \<noteq> ask_id s \<Longrightarrow>
     on_order_status_message_ac_3 s i f r fees = s"
  by (simp add: on_order_status_message_ac_3_def Let_def)

lemma on_order_status_message_ac_4_noop:
  "i \<notin> bids s \<Longrightarrow> i \<notin> asks s \<Longrightarrow> i \<noteq> bid_id s \<Longrightarrow> i \<noteq> ask_id s \<Longrightarrow>
     on_order_status_message_ac_4 s i f r fees = s"
  by (simp add: on_order_status_message_ac_4_def Let_def)

lemma on_order_status_message_ac_3_dead:
  assumes "bid_id s \<noteq> 0 \<longrightarrow> bid_id s \<noteq> ask_id s"
  shows "bids (on_order_status_message_ac_3 s i f 0 fees) = bids s - {i} \<and>
         asks (on_order_status_message_ac_3 s i f 0 fees) = asks s - {i} \<and>
         bid_id (on_order_status_message_ac_3 s i f 0 fees) = (if i = bid_id s then 0 else bid_id s) \<and>
         ask_id (on_order_status_message_ac_3 s i f 0 fees) = (if i = ask_id s then 0 else ask_id s) \<and>
         position (on_order_status_message_ac_3 s i f 0 fees) = position s"
  using assms by (auto simp: on_order_status_message_ac_3_def Let_def)

lemma on_order_status_message_ac_4_dead:
  assumes "bid_id s \<noteq> 0 \<longrightarrow> bid_id s \<noteq> ask_id s"
  shows "bids (on_order_status_message_ac_4 s i f 0 fees) = bids s - {i} \<and>
         asks (on_order_status_message_ac_4 s i f 0 fees) = asks s - {i} \<and>
         bid_id (on_order_status_message_ac_4 s i f 0 fees) = (if i = bid_id s then 0 else bid_id s) \<and>
         ask_id (on_order_status_message_ac_4 s i f 0 fees) = (if i = ask_id s then 0 else ask_id s) \<and>
         position (on_order_status_message_ac_4 s i f 0 fees) = position s"
  using assms by (auto simp: on_order_status_message_ac_4_def Let_def)

lemma on_order_status_message_ac_3_twice:
  assumes d: "bid_id s \<noteq> 0 \<longrightarrow> bid_id s \<noteq> ask_id s"
  shows "on_order_status_message_ac_3 (on_order_status_message_ac_3 s i f 0 fees) i f' 0 fees'
           = on_order_status_message_ac_3 s i f 0 fees"
proof -
  let ?s' = "on_order_status_message_ac_3 s i f 0 fees"
  note e = on_order_status_message_ac_3_dead[OF d, of i f fees]
  have "i = 0 \<or> i \<noteq> 0" by simp
  then show ?thesis
  proof
    assume "i \<noteq> 0"
    then have "i \<notin> bids ?s'" "i \<notin> asks ?s'" "i \<noteq> bid_id ?s'" "i \<noteq> ask_id ?s'"
      using e by auto
    then show ?thesis by (rule on_order_status_message_ac_3_noop)
  next
    assume z: "i = 0"
    show ?thesis unfolding z using d
      by (simp add: on_order_status_message_ac_3_def Let_def)
  qed
qed

lemma on_order_status_message_ac_4_twice:
  assumes d: "bid_id s \<noteq> 0 \<longrightarrow> bid_id s \<noteq> ask_id s" and "i \<noteq> 0"
  shows "on_order_status_message_ac_4 (on_order_status_message_ac_4 s i f 0 fees) i f' 0 fees'
           = on_order_status_message_ac_4 s i f 0 fees"
proof -
  let ?s' = "on_order_status_message_ac_4 s i f 0 fees"
  note e = on_order_status_message_ac_4_dead[OF d, of i f fees]
  have "i \<notin> bids ?s'" "i \<notin> asks ?s'" "i \<noteq> bid_id ?s'" "i \<noteq> ask_id ?s'"
    using e \<open>i \<noteq> 0\<close> by auto
  then show ?thesis by (rule on_order_status_message_ac_4_noop)
qed

lemma on_error_message_ac_3_known:
  "i \<noteq> 0 \<and> (i \<in> bids s \<or> i \<in> asks s) \<Longrightarrow>
     on_error_message_ac_3 s i = on_order_status_message_ac_3 s i 0 0 0"
  by (simp add: on_error_message_ac_3_def)

lemma on_error_message_ac_4_known:
  "i \<noteq> 0 \<and> (i \<in> bids s \<or> i \<in> asks s) \<Longrightarrow>
     on_error_message_ac_4 s i = on_order_status_message_ac_4 s i 0 0 0"
  by (simp add: on_error_message_ac_4_def)

lemma decision_making_ac_4_histories:
  "\<not> (ss \<and> sb) \<Longrightarrow>
     ask_price_history_of_etf (fst (decision_making_ac_4 s m ss sb)) = ask_price_history_of_etf s \<and>
     bid_price_history_of_etf (fst (decision_making_ac_4 s m ss sb)) = bid_price_history_of_etf s"
  by (simp add: decision_making_ac_4_eq Let_def)

lemma on_order_status_message_partial:
  "r \<noteq> 0 \<Longrightarrow>
     on_order_status_message_ac_3 s3 i f r fees = s3 \<and>
     bid_id (on_order_status_message_ac_4 s4 i f r fees) = bid_id s4 \<and>
     ask_id (on_order_status_message_ac_4 s4 i f r fees) = ask_id s4 \<and>
     bids (on_order_status_message_ac_4 s4 i f r fees) = bids s4 \<and>
     asks (on_order_status_message_ac_4 s4 i f r fees) = asks s4 \<and>
     position (on_order_status_message_ac_4 s4 i f r fees) = position s4"
  by (simp add: on_order_status_message_ac_3_def on_order_status_message_ac_4_def Let_def)

section \<open>The claims\<close>

subsection \<open>Errors that leave a handler\<close>

text \<open>
  Claim C6. No inbound event raises an uncaught exception; in particular a synchronized
  ETF order-book update in variant 2 completes without error when the latest recorded
  best bid and best ask of the future are both zero. The code does not do this: with the
  snapshot of an empty future book recorded, the next ETF update divides by the future
  midpoint \<open>0\<close> while computing the unused flag \<^verbatim>\<open>in_long_etf_position\<close>, and the
  handler ends in \<^verbatim>\<open>ZeroDivisionError\<close>.
\<close>

theorem zero_future_midpoint_raises:
  "run_ac_4 mb ma init_ac_4 [empty_book FUTURE 1, one_level_book ETF 1 1000 990]
     = Inl ZeroDivisionError"
  by (simp add: handler_defs consts_defs)

subsection \<open>Fills and the counter of committed exposure\<close>

text \<open>
  Claim C5. Across the fill and status events of one order each filled lot is applied
  exactly once to \<open>position\<close> and, in variant 2, exactly once to \<open>position_orders\<close>.
  The code applies a fill to \<open>position_orders\<close> in the fill handler and the
  cumulative fill volume again in every status handler: a bid of 10 lots filled in two
  halves leaves \<open>position = 10\<close> but \<open>position_orders = -25\<close>.
\<close>

theorem position_orders_counts_fills_again:
  "map_sum id (position \<circ> fst)
     (run_ac_4 mb ma init_ac_4
        [one_level_book FUTURE 1 1050 1050, one_level_book ETF 1 1000 1000,
         Order_filled_message 1 1000 5, Order_status_message 1 5 5 0,
         Order_filled_message 1 1000 5, Order_status_message 1 10 0 0]) = Inr 10
   \<and> map_sum id (position_orders \<circ> fst)
     (run_ac_4 mb ma init_ac_4
        [one_level_book FUTURE 1 1050 1050, one_level_book ETF 1 1000 1000,
         Order_filled_message 1 1000 5, Order_status_message 1 5 5 0,
         Order_filled_message 1 1000 5, Order_status_message 1 10 0 0]) = Inr (- 25)"
  by (simp add: handler_defs consts_defs)

subsection \<open>The position limit\<close>

text \<open>
  Claim C1. In every reachable state of either variant
  \<open>\<bar>position\<bar> \<le> POSITION_LIMIT\<close>, whatever the interleaving of quote placement,
  optimistic cancel-and-replace and late fills of the cancelled order. The code tries to
  keep the limit (the guards and the clamps of the sizing) and misses it: it sizes the
  replacement of a cancelled quote from the realized position alone, while the identifier
  of the cancelled quote stays in its side set and its fills are still applied. A bid of 100
  lots is cancelled and at once replaced by another bid of 100 lots (the realized position
  is still 0), the cancelled bid is filled in full before the exchange has processed the
  cancel, and the replacement is filled too; no fill exceeds the volume of its order, and
  the position ends at 200, in both variants.
\<close>

theorem late_fill_breaks_limit:
  "map_sum id (position \<circ> fst)
     (run_ac_3 1 2147483647 init_ac_3
        [one_level_book FUTURE 1 2000 2000, one_level_book ETF 1 1000 1000,
         one_level_book FUTURE 2 2000 2000, one_level_book ETF 2 1000 1000,
         Order_filled_message 1 1000 100, Order_filled_message 2 1000 100]) = Inr 200
   \<and> map_sum id (position \<circ> fst)
     (run_ac_4 1 2147483647 init_ac_4
        [one_level_book FUTURE 1 2000 2000, one_level_book ETF 1 1000 1000,
         one_level_book FUTURE 2 2000 2000, one_level_book ETF 2 1000 1000,
         Order_filled_message 1 1000 100, Order_filled_message 2 1000 100]) = Inr 200"
  by (simp add: handler_defs consts_defs)

text \<open>
  What the sizing does establish is local to one quote: an order-book
  update never changes \<open>position\<close>, and every order it inserts has a positive volume
  \<open>v\<close> with \<open>position + v \<le> POSITION_LIMIT\<close> for a buy and
  \<open>- POSITION_LIMIT \<le> position - v\<close> for a sell, \<open>position\<close> being the realized
  position when the order is placed. Status and error events leave \<open>position\<close>
  unchanged as well; only the fill handler changes it, by the volume of a fill for a
  tracked identifier, whatever that volume is.
\<close>

theorem quote_fits_realized_headroom:
  "(on_order_book_update_message_ac_3 s3 ins n ap av bp bv = Inr (s3', c3) \<longrightarrow>
      position s3' = position s3 \<and>
      (\<forall>i sd p v l. send_insert_order i sd p v l \<in> set c3 \<longrightarrow>
         0 < v \<and> (sd = BID \<longrightarrow> position s3 + v \<le> POSITION_LIMIT) \<and>
                 (sd = ASK \<longrightarrow> - POSITION_LIMIT \<le> position s3 - v))) \<and>
   (on_order_book_update_message_ac_4 s4 ins n ap av bp bv = Inr (s4', c4) \<longrightarrow>
      position s4' = position s4 \<and>
      (\<forall>i sd p v l. send_insert_order i sd p v l \<in> set c4 \<longrightarrow>
         0 < v \<and> (sd = BID \<longrightarrow> position s4 + v \<le> POSITION_LIMIT) \<and>
                 (sd = ASK \<longrightarrow> - POSITION_LIMIT \<le> position s4 - v))) \<and>
   position (on_order_status_message_ac_3 s3 j f r fees) = position s3 \<and>
   position (on_order_status_message_ac_4 s4 j f r fees) = position s4 \<and>
   position (on_error_message_ac_3 s3 j) = position s3 \<and>
   position (on_error_message_ac_4 s4 j) = position s4 \<and>
   position (fst (on_order_filled_message_ac_3 mb ma s3 j p' v')) =
     (if j \<in> bids s3 then position s3 + v'
      else if j \<in> asks s3 then position s3 - v' else position s3) \<and>
   position (fst (on_order_filled_message_ac_4 mb ma s4 j p' v')) =
     (if j \<in> bids s4 then position s4 + v'
      else if j \<in> asks s4 then position s4 - v' else position s4)"
proof (intro conjI impI allI)
  assume r: "on_order_book_update_message_ac_3 s3 ins n ap av bp bv = Inr (s3', c3)"
  from r show "position s3' = position s3"
  proof (cases rule: on_order_book_update_message_ac_3_cases)
    case (deferred s1)
    then show ?thesis using price_history_updates_ids[of s3 ins ap bp s1] by simp
  next
    case (sell s1 me mf)
    then show ?thesis
      using price_history_updates_ids[of s3 ins ap bp s1] sell_etf_ac_3_position by simp
  next
    case (buy s1 me mf)
    then show ?thesis
      using price_history_updates_ids[of s3 ins ap bp s1] buy_etf_ac_3_position by simp
  qed
  fix i sd p v l
  assume q: "send_insert_order i sd p v l \<in> set c3"
  from r have "0 < v \<and> (sd = BID \<longrightarrow> position s3 + v \<le> POSITION_LIMIT) \<and>
                 (sd = ASK \<longrightarrow> - POSITION_LIMIT \<le> position s3 - v)"
  proof (cases rule: on_order_book_update_message_ac_3_cases)
    case (deferred s1)
    then show ?thesis using q by simp
  next
    case (sell s1 me mf)
    then show ?thesis
      using price_history_updates_ids[of s3 ins ap bp s1]
        sell_etf_ac_3_quotes[OF sell(6) multiplier_of_pos q] by simp
  next
    case (buy s1 me mf)
    then show ?thesis
      using price_history_updates_ids[of s3 ins ap bp s1]
        buy_etf_ac_3_quotes[OF buy(6) multiplier_of_pos q] by simp
  qed
  then show "0 < v" "sd = BID \<Longrightarrow> position s3 + v \<le> POSITION_LIMIT"
    "sd = ASK \<Longrightarrow> - POSITION_LIMIT \<le> position s3 - v" by simp_all
next
  assume r: "on_order_book_update_message_ac_4 s4 ins n ap av bp bv = Inr (s4', c4)"
  from r show "position s4' = position s4"
  proof (cases rule: on_order_book_update_message_ac_4_cases)
    case (deferred s1)
    then show ?thesis using price_history_updates_ids[of s4 ins ap bp s1] by simp
  next
    case (decide s1 me mf)
    then show ?thesis
      using price_history_updates_ids[of s4 ins ap bp s1]
        decision_making_ac_4_position[of "me > mf" "me < mf" s1 "multiplier_of me mf"] by simp
  qed
  fix i sd p v l
  assume q: "send_insert_order i sd p v l \<in> set c4"
  from r have "0 < v \<and> (sd = BID \<longrightarrow> position s4 + v \<le> POSITION_LIMIT) \<and>
                 (sd = ASK \<longrightarrow> - POSITION_LIMIT \<le> position s4 - v)"
  proof (cases rule: on_order_book_update_message_ac_4_cases)
    case (deferred s1)
    then show ?thesis using q by simp
  next
    case (decide s1 me mf)
    have x: "\<not> (me > mf \<and> me < mf)" by simp
    show ?thesis
      using price_history_updates_ids[of s4 ins ap bp s1] decide(1)
        decision_making_ac_4_quotes[OF decide(6) x multiplier_of_pos q] by auto
  qed
  then show "0 < v" "sd = BID \<Longrightarrow> position s4 + v \<le> POSITION_LIMIT"
    "sd = ASK \<Longrightarrow> - POSITION_LIMIT \<le> position s4 - v" by simp_all
next
  show "position (on_order_status_message_ac_3 s3 j f r fees) = position s3"
    by (rule on_order_status_message_ac_3_position)
  show "position (on_order_status_message_ac_4 s4 j f r fees) = position s4"
    by (rule on_order_status_message_ac_4_position)
  show "position (on_error_message_ac_3 s3 j) = position s3"
    by (simp add: on_error_message_ac_3_def on_order_status_message_ac_3_position)
  show "position (on_error_message_ac_4 s4 j) = position s4"
    by (simp add: on_error_message_ac_4_def on_order_status_message_ac_4_position)
  show "position (fst (on_order_filled_message_ac_3 mb ma s3 j p' v')) =
     (if j \<in> bids s3 then position s3 + v'
      else if j \<in> asks s3 then position s3 - v' else position s3)"
    by (simp add: on_order_filled_message_ac_3_def)
  show "position (fst (on_order_filled_message_ac_4 mb ma s4 j p' v')) =
     (if j \<in> bids s4 then position s4 + v'
      else if j \<in> asks s4 then position s4 - v' else position s4)"
    by (simp add: on_order_filled_message_ac_4_def)
qed

theorem quote_fits_realized_headroom_witness:
  "map_sum id snd
     (on_order_book_update_message_ac_3
        (init_ac_3\<lparr> bid_price_history_of_future := [2000], ask_price_history_of_future := [2000] \<rparr>)
        ETF 1 [1000, 0, 0, 0, 0] [5, 0, 0, 0, 0] [1000, 0, 0, 0, 0] [5, 0, 0, 0, 0])
     = Inr [send_insert_order 1 BID 1000 100 GOOD_FOR_DAY] \<and>
   map_sum id (position \<circ> fst)
     (on_order_book_update_message_ac_3
        (init_ac_3\<lparr> bid_price_history_of_future := [2000], ask_price_history_of_future := [2000] \<rparr>)
        ETF 1 [1000, 0, 0, 0, 0] [5, 0, 0, 0, 0] [1000, 0, 0, 0, 0] [5, 0, 0, 0, 0])
     = Inr 0 \<and>
   (0::int) < 100 \<and> (0::int) + 100 \<le> POSITION_LIMIT \<and>
   map_sum id snd
     (on_order_book_update_message_ac_4
        (init_ac_4\<lparr> bid_price_history_of_future := [500], ask_price_history_of_future := [500] \<rparr>)
        ETF 1 [1000, 0, 0, 0, 0] [5, 0, 0, 0, 0] [1000, 0, 0, 0, 0] [5, 0, 0, 0, 0])
     = Inr [send_insert_order 1 ASK 1000 60 GOOD_FOR_DAY] \<and>
   map_sum id (position \<circ> fst)
     (on_order_book_update_message_ac_4
        (init_ac_4\<lparr> bid_price_history_of_future := [500], ask_price_history_of_future := [500] \<rparr>)
        ETF 1 [1000, 0, 0, 0, 0] [5, 0, 0, 0, 0] [1000, 0, 0, 0, 0] [5, 0, 0, 0, 0])
     = Inr 0 \<and>
   (0::int) < 60 \<and> - POSITION_LIMIT \<le> (0::int) - 60"
proof -
  let ?s3 = "init_ac_3\<lparr> bid_price_history_of_future := [2000], ask_price_history_of_future := [2000] \<rparr>"
  let ?s4 = "init_ac_4\<lparr> bid_price_history_of_future := [500], ask_price_history_of_future := [500] \<rparr>"
  let ?x3 = "on_order_book_update_message_ac_3 ?s3
        ETF 1 [1000, 0, 0, 0, 0] [5, 0, 0, 0, 0] [1000, 0, 0, 0, 0] [5, 0, 0, 0, 0]"
  let ?x4 = "on_order_book_update_message_ac_4 ?s4
        ETF 1 [1000, 0, 0, 0, 0] [5, 0, 0, 0, 0] [1000, 0, 0, 0, 0] [5, 0, 0, 0, 0]"
  have c3: "snd (projr ?x3) = [send_insert_order 1 BID 1000 100 GOOD_FOR_DAY]"
    by (simp add: handler_defs consts_defs)
  have c4: "snd (projr ?x4) = [send_insert_order 1 ASK 1000 60 GOOD_FOR_DAY]"
    by (simp add: handler_defs consts_defs)
  have r3: "?x3 = Inr (fst (projr ?x3), snd (projr ?x3))"
    by (simp add: handler_defs consts_defs)
  have r4: "?x4 = Inr (fst (projr ?x4), snd (projr ?x4))"
    by (simp add: handler_defs consts_defs)
  have p: "position ?s3 = 0" "position ?s4 = 0" by (simp_all add: init_ac_3_def init_ac_4_def)
  note t = quote_fits_realized_headroom[where ?s3.0 = ?s3 and ?s4.0 = ?s4 and ins = ETF and n = 1
      and ap = "[1000, 0, 0, 0, 0]" and av = "[5, 0, 0, 0, 0]" and bp = "[1000, 0, 0, 0, 0]"
      and bv = "[5, 0, 0, 0, 0]" and ?s3' = "fst (projr ?x3)" and ?c3.0 = "snd (projr ?x3)"
      and ?s4' = "fst (projr ?x4)" and ?c4.0 = "snd (projr ?x4)" and j = 0 and f = 0 and r = 0
      and fees = 0]
  from t r3 have a3: "position (fst (projr ?x3)) = position ?s3" by blast
  from t r3 c3 have b3: "(0::int) < 100 \<and> position ?s3 + 100 \<le> POSITION_LIMIT"
    by (metis list.set_intros(1))
  from t r4 have a4: "position (fst (projr ?x4)) = position ?s4" by blast
  from t r4 c4 have b4: "(0::int) < 60 \<and> - POSITION_LIMIT \<le> position ?s4 - 60"
    by (metis list.set_intros(1))
  have m3: "map_sum id snd ?x3 = Inr (snd (projr ?x3))"
    "map_sum id (position \<circ> fst) ?x3 = Inr (position (fst (projr ?x3)))"
    by (subst r3, simp)+
  have m4: "map_sum id snd ?x4 = Inr (snd (projr ?x4))"
    "map_sum id (position \<circ> fst) ?x4 = Inr (position (fst (projr ?x4)))"
    by (subst r4, simp)+
  show ?thesis
    unfolding m3 m4 a3 a4 c3 c4 using b3 b4 p by simp
qed

subsection \<open>Hedging a fill\<close>

text \<open>
  Claim C2. In every reachable state of either variant, a fill for an identifier in the
  bid set emits exactly one hedge order, on \<open>ASK\<close> at \<open>MIN_BID_NEAREST_TICK\<close> and of
  the fill's volume, and adds that volume to \<open>position\<close>; a fill for an identifier in
  the ask set emits exactly one hedge order, on \<open>BID\<close> at \<open>MAX_ASK_NEAREST_TICK\<close> and
  of the fill's volume, and subtracts it from \<open>position\<close>; a fill for an identifier in
  neither set emits nothing and changes nothing. (The handler tests the bid set first; in a
  reachable state no identifier is in both sets.)
\<close>

theorem hedge_law:
  "(run_ac_3 mb ma init_ac_3 evs = Inr (s3, out3) \<longrightarrow>
      (i \<in> bids s3 \<longrightarrow>
         snd (on_order_filled_message_ac_3 mb ma s3 i p v) =
           [send_hedge_order (order_ids s3) ASK (MIN_BID_NEAREST_TICK mb) v] \<and>
         position (fst (on_order_filled_message_ac_3 mb ma s3 i p v)) = position s3 + v) \<and>
      (i \<in> asks s3 \<longrightarrow>
         snd (on_order_filled_message_ac_3 mb ma s3 i p v) =
           [send_hedge_order (order_ids s3) BID (MAX_ASK_NEAREST_TICK ma) v] \<and>
         position (fst (on_order_filled_message_ac_3 mb ma s3 i p v)) = position s3 - v) \<and>
      (i \<notin> bids s3 \<and> i \<notin> asks s3 \<longrightarrow>
         on_order_filled_message_ac_3 mb ma s3 i p v = (s3, []))) \<and>
   (run_ac_4 mb ma init_ac_4 evs' = Inr (s4, out4) \<longrightarrow>
      (i \<in> bids s4 \<longrightarrow>
         snd (on_order_filled_message_ac_4 mb ma s4 i p v) =
           [send_hedge_order (order_ids s4) ASK (MIN_BID_NEAREST_TICK mb) v] \<and>
         position (fst (on_order_filled_message_ac_4 mb ma s4 i p v)) = position s4 + v) \<and>
      (i \<in> asks s4 \<longrightarrow>
         snd (on_order_filled_message_ac_4 mb ma s4 i p v) =
           [send_hedge_order (order_ids s4) BID (MAX_ASK_NEAREST_TICK ma) v] \<and>
         position (fst (on_order_filled_message_ac_4 mb ma s4 i p v)) = position s4 - v) \<and>
      (i \<notin> bids s4 \<and> i \<notin> asks s4 \<longrightarrow>
         on_order_filled_message_ac_4 mb ma s4 i p v = (s4, [])))"
proof (intro conjI impI)
  assume "run_ac_3 mb ma init_ac_3 evs = Inr (s3, out3)"
  then have d: "i \<in> asks s3 \<Longrightarrow> i \<notin> bids s3"
    using reachable_ac_3_issued[of mb ma evs s3 out3] by (auto simp: ids_issued_def)
  show "i \<in> bids s3 \<Longrightarrow> snd (on_order_filled_message_ac_3 mb ma s3 i p v) =
           [send_hedge_order (order_ids s3) ASK (MIN_BID_NEAREST_TICK mb) v]"
    by (simp add: on_order_filled_message_ac_3_def)
  show "i \<in> bids s3 \<Longrightarrow>
      position (fst (on_order_filled_message_ac_3 mb ma s3 i p v)) = position s3 + v"
    by (simp add: on_order_filled_message_ac_3_def)
  show "i \<in> asks s3 \<Longrightarrow> snd (on_order_filled_message_ac_3 mb ma s3 i p v) =
           [send_hedge_order (order_ids s3) BID (MAX_ASK_NEAREST_TICK ma) v]"
    using d by (simp add: on_order_filled_message_ac_3_def)
  show "i \<in> asks s3 \<Longrightarrow>
      position (fst (on_order_filled_message_ac_3 mb ma s3 i p v)) = position s3 - v"
    using d by (simp add: on_order_filled_message_ac_3_def)
  show "i \<notin> bids s3 \<and> i \<notin> asks s3 \<Longrightarrow> on_order_filled_message_ac_3 mb ma s3 i p v = (s3, [])"
    by (simp add: on_order_filled_message_ac_3_def)
next
  assume "run_ac_4 mb ma init_ac_4 evs' = Inr (s4, out4)"
  then have d: "i \<in> asks s4 \<Longrightarrow> i \<notin> bids s4"
    using reachable_ac_4_issued[of mb ma evs' s4 out4] by (auto simp: ids_issued_def)
  show "i \<in> bids s4 \<Longrightarrow> snd (on_order_filled_message_ac_4 mb ma s4 i p v) =
           [send_hedge_order (order_ids s4) ASK (MIN_BID_NEAREST_TICK mb) v]"
    by (simp add: on_order_filled_message_ac_4_def)
  show "i \<in> bids s4 \<Longrightarrow>
      position (fst (on_order_filled_message_ac_4 mb ma s4 i p v)) = position s4 + v"
    by (simp add: on_order_filled_message_ac_4_def)
  show "i \<in> asks s4 \<Longrightarrow> snd (on_order_filled_message_ac_4 mb ma s4 i p v) =
           [send_hedge_order (order_ids s4) BID (MAX_ASK_NEAREST_TICK ma) v]"
    using d by (simp add: on_order_filled_message_ac_4_def)
  show "i \<in> asks s4 \<Longrightarrow>
      position (fst (on_order_filled_message_ac_4 mb ma s4 i p v)) = position s4 - v"
    using d by (simp add: on_order_filled_message_ac_4_def)
  show "i \<notin> bids s4 \<and> i \<notin> asks s4 \<Longrightarrow> on_order_filled_message_ac_4 mb ma s4 i p v = (s4, [])"
    by (simp add: on_order_filled_message_ac_4_def)
qed

theorem hedge_law_witness:
  "snd (on_order_filled_message_ac_3 1 2147483647
          (fst (projr (run_ac_3 1 2147483647 init_ac_3 quotes_on_both_sides))) 1 1000 10)
     = [send_hedge_order 3 ASK 100 10] \<and>
   position (fst (on_order_filled_message_ac_3 1 2147483647
          (fst (projr (run_ac_3 1 2147483647 init_ac_3 quotes_on_both_sides))) 1 1000 10)) = 10 \<and>
   snd (on_order_filled_message_ac_3 1 2147483647
          (fst (projr (run_ac_3 1 2147483647 init_ac_3 quotes_on_both_sides))) 2 1000 10)
     = [send_hedge_order 3 BID 2147483600 10] \<and>
   position (fst (on_order_filled_message_ac_3 1 2147483647
          (fst (projr (run_ac_3 1 2147483647 init_ac_3 quotes_on_both_sides))) 2 1000 10)) = - 10 \<and>
   snd (on_order_filled_message_ac_3 1 2147483647
          (fst (projr (run_ac_3 1 2147483647 init_ac_3 quotes_on_both_sides))) 7 1000 10) = [] \<and>
   snd (on_order_filled_message_ac_4 1 2147483647
          (fst (projr (run_ac_4 1 2147483647 init_ac_4 quotes_on_both_sides))) 1 1000 10)
     = [send_hedge_order 3 ASK 100 10] \<and>
   position (fst (on_order_filled_message_ac_4 1 2147483647
          (fst (projr (run_ac_4 1 2147483647 init_ac_4 quotes_on_both_sides))) 1 1000 10)) = 10 \<and>
   snd (on_order_filled_message_ac_4 1 2147483647
          (fst (projr (run_ac_4 1 2147483647 init_ac_4 quotes_on_both_sides))) 2 1000 10)
     = [send_hedge_order 3 BID 2147483600 10] \<and>
   position (fst (on_order_filled_message_ac_4 1 2147483647
          (fst (projr (run_ac_4 1 2147483647 init_ac_4 quotes_on_both_sides))) 2 1000 10)) = - 10 \<and>
   snd (on_order_filled_message_ac_4 1 2147483647
          (fst (projr (run_ac_4 1 2147483647 init_ac_4 quotes_on_both_sides))) 7 1000 10) = []"
proof -
  let ?r3 = "run_ac_3 1 2147483647 init_ac_3 quotes_on_both_sides"
  let ?r4 = "run_ac_4 1 2147483647 init_ac_4 quotes_on_both_sides"
  have r3: "?r3 = Inr (fst (projr ?r3), snd (projr ?r3))"
    by (simp add: handler_defs consts_defs quotes_on_both_sides_def)
  have r4: "?r4 = Inr (fst (projr ?r4), snd (projr ?r4))"
    by (simp add: handler_defs consts_defs quotes_on_both_sides_def)
  have f3: "bids (fst (projr ?r3)) = {1}" "asks (fst (projr ?r3)) = {2}"
    "order_ids (fst (projr ?r3)) = 3" "position (fst (projr ?r3)) = 0"
    by (simp_all add: handler_defs consts_defs quotes_on_both_sides_def)
  have f4: "bids (fst (projr ?r4)) = {1}" "asks (fst (projr ?r4)) = {2}"
    "order_ids (fst (projr ?r4)) = 3" "position (fst (projr ?r4)) = 0"
    by (simp_all add: handler_defs consts_defs quotes_on_both_sides_def)
  have k: "MIN_BID_NEAREST_TICK 1 = 100" "MAX_ASK_NEAREST_TICK 2147483647 = 2147483600"
    by (simp_all add: MIN_BID_NEAREST_TICK_def MAX_ASK_NEAREST_TICK_def consts_defs)
  note t = hedge_law[where mb = 1 and ma = 2147483647 and evs = quotes_on_both_sides
      and evs' = quotes_on_both_sides and ?s3.0 = "fst (projr ?r3)" and ?out3.0 = "snd (projr ?r3)"
      and ?s4.0 = "fst (projr ?r4)" and ?out4.0 = "snd (projr ?r4)" and p = 1000 and v = 10]
  have m: "(1::int) \<in> {1}" "(2::int) \<in> {2}" "(7::int) \<notin> {1} \<and> (7::int) \<notin> {2}" by simp_all
  show ?thesis
    using t[where i = 1] t[where i = 2] t[where i = 7] r3 r4 m
    unfolding f3 f4 k by simp
qed

subsection \<open>Status events\<close>

text \<open>
  Claim C8. In a reachable state of either variant, a status event with remaining volume 0
  delivered a second time for the same order identifier leaves the state as the first
  delivery left it, whatever fill volume and fees the second delivery carries. An order
  identifier is a value of the counter, which starts at 1; the value 0 is the mark of an
  empty slot and of an error that belongs to no order, and it is excluded for variant 2,
  whose handler compares the identifier with the slots before it looks at the remaining
  volume. In any state at all, a status event for an identifier that is in neither side
  set and equals neither slot changes nothing.
\<close>

theorem status_idempotent:
  "(run_ac_3 mb ma init_ac_3 evs = Inr (s3, out3) \<longrightarrow>
      on_order_status_message_ac_3 (on_order_status_message_ac_3 s3 i f 0 fees) i f' 0 fees'
        = on_order_status_message_ac_3 s3 i f 0 fees) \<and>
   (run_ac_4 mb ma init_ac_4 evs' = Inr (s4, out4) \<and> i \<noteq> 0 \<longrightarrow>
      on_order_status_message_ac_4 (on_order_status_message_ac_4 s4 i f 0 fees) i f' 0 fees'
        = on_order_status_message_ac_4 s4 i f 0 fees) \<and>
   (j \<notin> bids t3 \<and> j \<notin> asks t3 \<and> j \<noteq> bid_id t3 \<and> j \<noteq> ask_id t3 \<longrightarrow>
      on_order_status_message_ac_3 t3 j g r gees = t3) \<and>
   (j \<notin> bids t4 \<and> j \<notin> asks t4 \<and> j \<noteq> bid_id t4 \<and> j \<noteq> ask_id t4 \<longrightarrow>
      on_order_status_message_ac_4 t4 j g r gees = t4)"
proof (intro conjI impI)
  assume "run_ac_3 mb ma init_ac_3 evs = Inr (s3, out3)"
  then have "bid_id s3 \<noteq> 0 \<longrightarrow> bid_id s3 \<noteq> ask_id s3"
    using reachable_ac_3_issued[of mb ma evs s3 out3] by (simp add: ids_issued_def)
  then show "on_order_status_message_ac_3 (on_order_status_message_ac_3 s3 i f 0 fees) i f' 0 fees'
        = on_order_status_message_ac_3 s3 i f 0 fees"
    by (rule on_order_status_message_ac_3_twice)
next
  assume a: "run_ac_4 mb ma init_ac_4 evs' = Inr (s4, out4) \<and> i \<noteq> 0"
  then have "bid_id s4 \<noteq> 0 \<longrightarrow> bid_id s4 \<noteq> ask_id s4"
    using reachable_ac_4_issued[of mb ma evs' s4 out4] by (simp add: ids_issued_def)
  then show "on_order_status_message_ac_4 (on_order_status_message_ac_4 s4 i f 0 fees) i f' 0 fees'
        = on_order_status_message_ac_4 s4 i f 0 fees"
    using a by (simp add: on_order_status_message_ac_4_twice)
next
  assume "j \<notin> bids t3 \<and> j \<notin> asks t3 \<and> j \<noteq> bid_id t3 \<and> j \<noteq> ask_id t3"
  then show "on_order_status_message_ac_3 t3 j g r gees = t3"
    by (simp add: on_order_status_message_ac_3_noop)
next
  assume "j \<notin> bids t4 \<and> j \<notin> asks t4 \<and> j \<noteq> bid_id t4 \<and> j \<noteq> ask_id t4"
  then show "on_order_status_message_ac_4 t4 j g r gees = t4"
    by (simp add: on_order_status_message_ac_4_noop)
qed

theorem status_idempotent_witness:
  "map_sum id (bid_id \<circ> fst) (run_ac_3 1 2147483647 init_ac_3 quotes_on_both_sides) = Inr 1 \<and>
   on_order_status_message_ac_3
     (on_order_status_message_ac_3
        (fst (projr (run_ac_3 1 2147483647 init_ac_3 quotes_on_both_sides))) 1 100 0 0) 1 100 0 0
     = on_order_status_message_ac_3
        (fst (projr (run_ac_3 1 2147483647 init_ac_3 quotes_on_both_sides))) 1 100 0 0 \<and>
   map_sum id (ask_id \<circ> fst) (run_ac_4 1 2147483647 init_ac_4 quotes_on_both_sides) = Inr 2 \<and>
   on_order_status_message_ac_4
     (on_order_status_message_ac_4
        (fst (projr (run_ac_4 1 2147483647 init_ac_4 quotes_on_both_sides))) 2 60 0 0) 2 60 0 0
     = on_order_status_message_ac_4
        (fst (projr (run_ac_4 1 2147483647 init_ac_4 quotes_on_both_sides))) 2 60 0 0 \<and>
   on_order_status_message_ac_3
     (fst (projr (run_ac_3 1 2147483647 init_ac_3 quotes_on_both_sides))) 7 0 5 0
     = fst (projr (run_ac_3 1 2147483647 init_ac_3 quotes_on_both_sides)) \<and>
   on_order_status_message_ac_4
     (fst (projr (run_ac_4 1 2147483647 init_ac_4 quotes_on_both_sides))) 7 0 5 0
     = fst (projr (run_ac_4 1 2147483647 init_ac_4 quotes_on_both_sides))"
proof -
  let ?r3 = "run_ac_3 1 2147483647 init_ac_3 quotes_on_both_sides"
  let ?r4 = "run_ac_4 1 2147483647 init_ac_4 quotes_on_both_sides"
  have r3: "?r3 = Inr (fst (projr ?r3), snd (projr ?r3))"
    by (simp add: handler_defs consts_defs quotes_on_both_sides_def)
  have r4: "?r4 = Inr (fst (projr ?r4), snd (projr ?r4))"
    by (simp add: handler_defs consts_defs quotes_on_both_sides_def)
  have f3: "bids (fst (projr ?r3)) = {1}" "asks (fst (projr ?r3)) = {2}"
    "bid_id (fst (projr ?r3)) = 1" "ask_id (fst (projr ?r3)) = 2"
    by (simp_all add: handler_defs consts_defs quotes_on_both_sides_def)
  have f4: "bids (fst (projr ?r4)) = {1}" "asks (fst (projr ?r4)) = {2}"
    "bid_id (fst (projr ?r4)) = 0" "ask_id (fst (projr ?r4)) = 2"
    by (simp_all add: handler_defs consts_defs quotes_on_both_sides_def)
  have m3: "map_sum id (bid_id \<circ> fst) ?r3 = Inr (bid_id (fst (projr ?r3)))"
    by (subst r3) simp
  have m4: "map_sum id (ask_id \<circ> fst) ?r4 = Inr (ask_id (fst (projr ?r4)))"
    by (subst r4) simp
  note t = status_idempotent[where mb = 1 and ma = 2147483647 and evs = quotes_on_both_sides
      and evs' = quotes_on_both_sides and ?s3.0 = "fst (projr ?r3)" and ?out3.0 = "snd (projr ?r3)"
      and ?s4.0 = "fst (projr ?r4)" and ?out4.0 = "snd (projr ?r4)"
      and ?t3.0 = "fst (projr ?r3)" and ?t4.0 = "fst (projr ?r4)" and j = 7 and g = 0 and r = 5
      and gees = 0 and fees = 0 and fees' = 0]
  have n: "(7::int) \<notin> {1} \<and> (7::int) \<notin> {2} \<and> (7::int) \<noteq> 1 \<and> (7::int) \<noteq> 2"
    "(7::int) \<notin> {1} \<and> (7::int) \<notin> {2} \<and> (7::int) \<noteq> 0 \<and> (7::int) \<noteq> 2"
    "(2::int) \<noteq> 0" by simp_all
  show ?thesis
    unfolding m3 m4
    using t[where i = 1 and f = 100 and f' = 100] t[where i = 2 and f = 60 and f' = 60] r3 r4 n
    unfolding f3 f4 by simp
qed

subsection \<open>Error events\<close>

text \<open>
  Claim C9. In a reachable state of either variant, an error event with a nonzero
  identifier that is in one of the side sets has the effect of the status event
  \<open>(id, 0, 0, 0)\<close>: the identifier leaves both side sets and the slot that held it is
  set to 0. An error event with identifier 0, or with an identifier in neither side set,
  changes nothing.
\<close>

theorem error_is_dead_status:
  "(run_ac_3 mb ma init_ac_3 evs = Inr (s3, out3) \<longrightarrow>
      (i \<noteq> 0 \<and> (i \<in> bids s3 \<or> i \<in> asks s3) \<longrightarrow>
         on_error_message_ac_3 s3 i = on_order_status_message_ac_3 s3 i 0 0 0 \<and>
         bids (on_error_message_ac_3 s3 i) = bids s3 - {i} \<and>
         asks (on_error_message_ac_3 s3 i) = asks s3 - {i} \<and>
         bid_id (on_error_message_ac_3 s3 i) = (if i = bid_id s3 then 0 else bid_id s3) \<and>
         ask_id (on_error_message_ac_3 s3 i) = (if i = ask_id s3 then 0 else ask_id s3)) \<and>
      (i = 0 \<or> i \<notin> bids s3 \<and> i \<notin> asks s3 \<longrightarrow> on_error_message_ac_3 s3 i = s3)) \<and>
   (run_ac_4 mb ma init_ac_4 evs' = Inr (s4, out4) \<longrightarrow>
      (i \<noteq> 0 \<and> (i \<in> bids s4 \<or> i \<in> asks s4) \<longrightarrow>
         on_error_message_ac_4 s4 i = on_order_status_message_ac_4 s4 i 0 0 0 \<and>
         bids (on_error_message_ac_4 s4 i) = bids s4 - {i} \<and>
         asks (on_error_message_ac_4 s4 i) = asks s4 - {i} \<and>
         bid_id (on_error_message_ac_4 s4 i) = (if i = bid_id s4 then 0 else bid_id s4) \<and>
         ask_id (on_error_message_ac_4 s4 i) = (if i = ask_id s4 then 0 else ask_id s4)) \<and>
      (i = 0 \<or> i \<notin> bids s4 \<and> i \<notin> asks s4 \<longrightarrow> on_error_message_ac_4 s4 i = s4))"
proof (intro conjI impI)
  assume "run_ac_3 mb ma init_ac_3 evs = Inr (s3, out3)"
  then have d: "bid_id s3 \<noteq> 0 \<longrightarrow> bid_id s3 \<noteq> ask_id s3"
    using reachable_ac_3_issued[of mb ma evs s3 out3] by (simp add: ids_issued_def)
  note e = on_order_status_message_ac_3_dead[OF d, of i 0 0]
  assume k: "i \<noteq> 0 \<and> (i \<in> bids s3 \<or> i \<in> asks s3)"
  note q = on_error_message_ac_3_known[OF k]
  show "on_error_message_ac_3 s3 i = on_order_status_message_ac_3 s3 i 0 0 0" by (rule q)
  show "bids (on_error_message_ac_3 s3 i) = bids s3 - {i}" unfolding q using e by simp
  show "asks (on_error_message_ac_3 s3 i) = asks s3 - {i}" unfolding q using e by simp
  show "bid_id (on_error_message_ac_3 s3 i) = (if i = bid_id s3 then 0 else bid_id s3)"
    unfolding q using e by simp
  show "ask_id (on_error_message_ac_3 s3 i) = (if i = ask_id s3 then 0 else ask_id s3)"
    unfolding q using e by simp
next
  assume "i = 0 \<or> i \<notin> bids s3 \<and> i \<notin> asks s3"
  then show "on_error_message_ac_3 s3 i = s3" by (auto simp: on_error_message_ac_3_def)
next
  assume "run_ac_4 mb ma init_ac_4 evs' = Inr (s4, out4)"
  then have d: "bid_id s4 \<noteq> 0 \<longrightarrow> bid_id s4 \<noteq> ask_id s4"
    using reachable_ac_4_issued[of mb ma evs' s4 out4] by (simp add: ids_issued_def)
  note e = on_order_status_message_ac_4_dead[OF d, of i 0 0]
  assume k: "i \<noteq> 0 \<and> (i \<in> bids s4 \<or> i \<in> asks s4)"
  note q = on_error_message_ac_4_known[OF k]
  show "on_error_message_ac_4 s4 i = on_order_status_message_ac_4 s4 i 0 0 0" by (rule q)
  show "bids (on_error_message_ac_4 s4 i) = bids s4 - {i}" unfolding q using e by simp
  show "asks (on_error_message_ac_4 s4 i) = asks s4 - {i}" unfolding q using e by simp
  show "bid_id (on_error_message_ac_4 s4 i) = (if i = bid_id s4 then 0 else bid_id s4)"
    unfolding q using e by simp
  show "ask_id (on_error_message_ac_4 s4 i) = (if i = ask_id s4 then 0 else ask_id s4)"
    unfolding q using e by simp
next
  assume "i = 0 \<or> i \<notin> bids s4 \<and> i \<notin> asks s4"
  then show "on_error_message_ac_4 s4 i = s4" by (auto simp: on_error_message_ac_4_def)
qed

theorem error_is_dead_status_witness:
  "on_error_message_ac_3 (fst (projr (run_ac_3 1 2147483647 init_ac_3 quotes_on_both_sides))) 1
     = on_order_status_message_ac_3
         (fst (projr (run_ac_3 1 2147483647 init_ac_3 quotes_on_both_sides))) 1 0 0 0 \<and>
   bids (on_error_message_ac_3
           (fst (projr (run_ac_3 1 2147483647 init_ac_3 quotes_on_both_sides))) 1) = {} \<and>
   bid_id (on_error_message_ac_3
           (fst (projr (run_ac_3 1 2147483647 init_ac_3 quotes_on_both_sides))) 1) = 0 \<and>
   on_error_message_ac_3 (fst (projr (run_ac_3 1 2147483647 init_ac_3 quotes_on_both_sides))) 0
     = fst (projr (run_ac_3 1 2147483647 init_ac_3 quotes_on_both_sides)) \<and>
   on_error_message_ac_3 (fst (projr (run_ac_3 1 2147483647 init_ac_3 quotes_on_both_sides))) 7
     = fst (projr (run_ac_3 1 2147483647 init_ac_3 quotes_on_both_sides)) \<and>
   on_error_message_ac_4 (fst (projr (run_ac_4 1 2147483647 init_ac_4 quotes_on_both_sides))) 2
     = on_order_status_message_ac_4
         (fst (projr (run_ac_4 1 2147483647 init_ac_4 quotes_on_both_sides))) 2 0 0 0 \<and>
   asks (on_error_message_ac_4
           (fst (projr (run_ac_4 1 2147483647 init_ac_4 quotes_on_both_sides))) 2) = {} \<and>
   ask_id (on_error_message_ac_4
           (fst (projr (run_ac_4 1 2147483647 init_ac_4 quotes_on_both_sides))) 2) = 0 \<and>
   on_error_message_ac_4 (fst (projr (run_ac_4 1 2147483647 init_ac_4 quotes_on_both_sides))) 0
     = fst (projr (run_ac_4 1 2147483647 init_ac_4 quotes_on_both_sides)) \<and>
   on_error_message_ac_4 (fst (projr (run_ac_4 1 2147483647 init_ac_4 quotes_on_both_sides))) 7
     = fst (projr (run_ac_4 1 2147483647 init_ac_4 quotes_on_both_sides))"
proof -
  let ?r3 = "run_ac_3 1 2147483647 init_ac_3 quotes_on_both_sides"
  let ?r4 = "run_ac_4 1 2147483647 init_ac_4 quotes_on_both_sides"
  have r3: "?r3 = Inr (fst (projr ?r3), snd (projr ?r3))"
    by (simp add: handler_defs consts_defs quotes_on_both_sides_def)
  have r4: "?r4 = Inr (fst (projr ?r4), snd (projr ?r4))"
    by (simp add: handler_defs consts_defs quotes_on_both_sides_def)
  have f3: "bids (fst (projr ?r3)) = {1}" "asks (fst (projr ?r3)) = {2}"
    "bid_id (fst (projr ?r3)) = 1" "ask_id (fst (projr ?r3)) = 2"
    by (simp_all add: handler_defs consts_defs quotes_on_both_sides_def)
  have f4: "bids (fst (projr ?r4)) = {1}" "asks (fst (projr ?r4)) = {2}"
    "bid_id (fst (projr ?r4)) = 0" "ask_id (fst (projr ?r4)) = 2"
    by (simp_all add: handler_defs consts_defs quotes_on_both_sides_def)
  note t = error_is_dead_status[where mb = 1 and ma = 2147483647 and evs = quotes_on_both_sides
      and evs' = quotes_on_both_sides and ?s3.0 = "fst (projr ?r3)" and ?out3.0 = "snd (projr ?r3)"
      and ?s4.0 = "fst (projr ?r4)" and ?out4.0 = "snd (projr ?r4)"]
  have h3: "(1::int) \<noteq> 0 \<and> (1 \<in> bids (fst (projr ?r3)) \<or> 1 \<in> asks (fst (projr ?r3)))"
    by (simp add: f3)
  have h4: "(2::int) \<noteq> 0 \<and> (2 \<in> bids (fst (projr ?r4)) \<or> 2 \<in> asks (fst (projr ?r4)))"
    by (simp add: f4)
  have z3: "(0::int) = 0 \<or> 0 \<notin> bids (fst (projr ?r3)) \<and> 0 \<notin> asks (fst (projr ?r3))"
    and z4: "(0::int) = 0 \<or> 0 \<notin> bids (fst (projr ?r4)) \<and> 0 \<notin> asks (fst (projr ?r4))"
    and u3: "(7::int) = 0 \<or> 7 \<notin> bids (fst (projr ?r3)) \<and> 7 \<notin> asks (fst (projr ?r3))"
    and u4: "(7::int) = 0 \<or> 7 \<notin> bids (fst (projr ?r4)) \<and> 7 \<notin> asks (fst (projr ?r4))"
    by (simp_all add: f3 f4)
  note a1 = t[where i = 1, THEN conjunct1, THEN mp, OF r3, THEN conjunct1, THEN mp, OF h3]
  note b2 = t[where i = 2, THEN conjunct2, THEN mp, OF r4, THEN conjunct1, THEN mp, OF h4]
  note a0 = t[where i = 0, THEN conjunct1, THEN mp, OF r3, THEN conjunct2, THEN mp, OF z3]
  note b0 = t[where i = 0, THEN conjunct2, THEN mp, OF r4, THEN conjunct2, THEN mp, OF z4]
  note a7 = t[where i = 7, THEN conjunct1, THEN mp, OF r3, THEN conjunct2, THEN mp, OF u3]
  note b7 = t[where i = 7, THEN conjunct2, THEN mp, OF r4, THEN conjunct2, THEN mp, OF u4]
  have c1: "bids (on_error_message_ac_3 (fst (projr ?r3)) 1) = {}"
    using a1[THEN conjunct2, THEN conjunct1] unfolding f3 by simp
  have c1': "bid_id (on_error_message_ac_3 (fst (projr ?r3)) 1) = 0"
    using a1[THEN conjunct2, THEN conjunct2, THEN conjunct2, THEN conjunct1] unfolding f3 by simp
  have c2: "asks (on_error_message_ac_4 (fst (projr ?r4)) 2) = {}"
    using b2[THEN conjunct2, THEN conjunct2, THEN conjunct1] unfolding f4 by simp
  have c2': "ask_id (on_error_message_ac_4 (fst (projr ?r4)) 2) = 0"
    using b2[THEN conjunct2, THEN conjunct2, THEN conjunct2, THEN conjunct2] unfolding f4 by simp
  show ?thesis
    by (intro conjI) (fact a1[THEN conjunct1] c1 c1' a0 a7 b2[THEN conjunct1] c2 c2' b0 b7)+
qed

subsection \<open>Deferring until both instruments have reported\<close>

text \<open>
  Claim C7. An order-book update (with at least one price level reported on each side, so
  that its best prices exist) is first recorded in the price histories. If the ETF and the
  future histories then hold unequal numbers of snapshots, and in variant 2 also whenever
  the update is for the future, the handler stops there: it returns without error, sends no
  command, and the counter, the side sets, the slots, the position and, in variant 2, the
  committed exposure are as before; only the histories have grown by the snapshot.
\<close>

theorem unsynchronized_update_defers:
  "ap \<noteq> [] \<and> bp \<noteq> [] \<longrightarrow>
     (\<exists>s1. price_history_updates s3 ins ap bp = Inr s1 \<and>
        order_ids s1 = order_ids s3 \<and> bids s1 = bids s3 \<and> asks s1 = asks s3 \<and>
        ask_id s1 = ask_id s3 \<and> bid_id s1 = bid_id s3 \<and> position s1 = position s3 \<and>
        (\<not> is_latest_info s1 \<longrightarrow>
           on_order_book_update_message_ac_3 s3 ins n ap av bp bv = Inr (s1, []))) \<and>
     (\<exists>s1. price_history_updates s4 ins ap bp = Inr s1 \<and>
        order_ids s1 = order_ids s4 \<and> bids s1 = bids s4 \<and> asks s1 = asks s4 \<and>
        ask_id s1 = ask_id s4 \<and> bid_id s1 = bid_id s4 \<and> position s1 = position s4 \<and>
        position_orders s1 = position_orders s4 \<and>
        (ins = FUTURE \<or> \<not> is_latest_info s1 \<longrightarrow>
           on_order_book_update_message_ac_4 s4 ins n ap av bp bv = Inr (s1, [])))"
proof (intro impI conjI)
  assume ne: "ap \<noteq> [] \<and> bp \<noteq> []"
  then obtain s1 where s1: "price_history_updates s3 ins ap bp = Inr s1"
    using price_history_updates_Inr[of ap bp s3 ins] by blast
  note f = price_history_updates_ids[OF s1]
  have "\<not> is_latest_info s1 \<longrightarrow>
           on_order_book_update_message_ac_3 s3 ins n ap av bp bv = Inr (s1, [])"
    by (simp add: on_order_book_update_message_ac_3_eq[OF s1])
  with s1 f show "\<exists>s1. price_history_updates s3 ins ap bp = Inr s1 \<and>
        order_ids s1 = order_ids s3 \<and> bids s1 = bids s3 \<and> asks s1 = asks s3 \<and>
        ask_id s1 = ask_id s3 \<and> bid_id s1 = bid_id s3 \<and> position s1 = position s3 \<and>
        (\<not> is_latest_info s1 \<longrightarrow>
           on_order_book_update_message_ac_3 s3 ins n ap av bp bv = Inr (s1, []))"
    by blast
  from ne obtain t1 where t1: "price_history_updates s4 ins ap bp = Inr t1"
    using price_history_updates_Inr[of ap bp s4 ins] by blast
  note g = price_history_updates_ids[OF t1]
  have po: "position_orders t1 = position_orders s4"
    using t1 ne by (cases ap; cases bp)
      (auto simp: price_history_updates_def index_first_def Let_def)
  have "ins = FUTURE \<or> \<not> is_latest_info t1 \<longrightarrow>
           on_order_book_update_message_ac_4 s4 ins n ap av bp bv = Inr (t1, [])"
    by (simp add: on_order_book_update_message_ac_4_eq[OF t1])
  with t1 g po show "\<exists>s1. price_history_updates s4 ins ap bp = Inr s1 \<and>
        order_ids s1 = order_ids s4 \<and> bids s1 = bids s4 \<and> asks s1 = asks s4 \<and>
        ask_id s1 = ask_id s4 \<and> bid_id s1 = bid_id s4 \<and> position s1 = position s4 \<and>
        position_orders s1 = position_orders s4 \<and>
        (ins = FUTURE \<or> \<not> is_latest_info s1 \<longrightarrow>
           on_order_book_update_message_ac_4 s4 ins n ap av bp bv = Inr (s1, []))"
    by blast
qed

theorem unsynchronized_update_defers_witness:
  "on_order_book_update_message_ac_3 init_ac_3 ETF 1
      [1010, 0, 0, 0, 0] [5, 0, 0, 0, 0] [990, 0, 0, 0, 0] [5, 0, 0, 0, 0]
     = Inr (init_ac_3\<lparr> bid_price_history_of_etf := [990], ask_price_history_of_etf := [1010] \<rparr>, []) \<and>
   on_order_book_update_message_ac_4 init_ac_4 ETF 1
      [1010, 0, 0, 0, 0] [5, 0, 0, 0, 0] [990, 0, 0, 0, 0] [5, 0, 0, 0, 0]
     = Inr (init_ac_4\<lparr> bid_price_history_of_etf := [990], ask_price_history_of_etf := [1010] \<rparr>, []) \<and>
   on_order_book_update_message_ac_4
      (init_ac_4\<lparr> bid_price_history_of_etf := [990], ask_price_history_of_etf := [1010] \<rparr>)
      FUTURE 1 [1010, 0, 0, 0, 0] [5, 0, 0, 0, 0] [990, 0, 0, 0, 0] [5, 0, 0, 0, 0]
     = Inr (init_ac_4\<lparr> bid_price_history_of_etf := [990], ask_price_history_of_etf := [1010],
              bid_price_history_of_future := [990], ask_price_history_of_future := [1010] \<rparr>, [])"
proof -
  let ?ap = "[1010, 0, 0, 0, 0] :: int list" and ?bp = "[990, 0, 0, 0, 0] :: int list"
  let ?av = "[5, 0, 0, 0, 0] :: int list"
  have ne: "?ap \<noteq> [] \<and> ?bp \<noteq> []" by simp
  note t = unsynchronized_update_defers[where ap = ?ap and bp = ?bp and av = ?av and bv = ?av
      and ins = ETF and n = 1 and ?s3.0 = init_ac_3 and ?s4.0 = init_ac_4, THEN mp, OF ne]
  from t obtain s1 where s1: "price_history_updates init_ac_3 ETF ?ap ?bp = Inr s1"
    and d1: "\<not> is_latest_info s1 \<longrightarrow>
           on_order_book_update_message_ac_3 init_ac_3 ETF 1 ?ap ?av ?bp ?av = Inr (s1, [])"
    by blast
  from t obtain t1 where t1: "price_history_updates init_ac_4 ETF ?ap ?bp = Inr t1"
    and e1: "ETF = FUTURE \<or> \<not> is_latest_info t1 \<longrightarrow>
           on_order_book_update_message_ac_4 init_ac_4 ETF 1 ?ap ?av ?bp ?av = Inr (t1, [])"
    by blast
  have v1: "s1 = init_ac_3\<lparr> bid_price_history_of_etf := [990], ask_price_history_of_etf := [1010] \<rparr>"
    using s1 by (simp add: handler_defs)
  have w1: "t1 = init_ac_4\<lparr> bid_price_history_of_etf := [990], ask_price_history_of_etf := [1010] \<rparr>"
    using t1 by (simp add: handler_defs)
  have "\<not> is_latest_info s1" unfolding v1 by (simp add: handler_defs)
  moreover have "\<not> is_latest_info t1" unfolding w1 by (simp add: handler_defs)
  ultimately have a: "on_order_book_update_message_ac_3 init_ac_3 ETF 1 ?ap ?av ?bp ?av
       = Inr (init_ac_3\<lparr> bid_price_history_of_etf := [990], ask_price_history_of_etf := [1010] \<rparr>, [])"
    and b: "on_order_book_update_message_ac_4 init_ac_4 ETF 1 ?ap ?av ?bp ?av
       = Inr (init_ac_4\<lparr> bid_price_history_of_etf := [990], ask_price_history_of_etf := [1010] \<rparr>, [])"
    using d1 e1 unfolding v1 w1 by blast+
  let ?u = "init_ac_4\<lparr> bid_price_history_of_etf := [990], ask_price_history_of_etf := [1010] \<rparr>"
  note t' = unsynchronized_update_defers[where ap = ?ap and bp = ?bp and av = ?av and bv = ?av
      and ins = FUTURE and n = 1 and ?s3.0 = init_ac_3 and ?s4.0 = ?u, THEN mp, OF ne]
  from t' obtain u1 where u1: "price_history_updates ?u FUTURE ?ap ?bp = Inr u1"
    and g1: "FUTURE = FUTURE \<or> \<not> is_latest_info u1 \<longrightarrow>
           on_order_book_update_message_ac_4 ?u FUTURE 1 ?ap ?av ?bp ?av = Inr (u1, [])"
    by blast
  have x1: "u1 = init_ac_4\<lparr> bid_price_history_of_etf := [990], ask_price_history_of_etf := [1010],
              bid_price_history_of_future := [990], ask_price_history_of_future := [1010] \<rparr>"
    using u1 by (simp add: handler_defs)
  have c: "on_order_book_update_message_ac_4 ?u FUTURE 1 ?ap ?av ?bp ?av
       = Inr (init_ac_4\<lparr> bid_price_history_of_etf := [990], ask_price_history_of_etf := [1010],
              bid_price_history_of_future := [990], ask_price_history_of_future := [1010] \<rparr>, [])"
    using g1 unfolding x1 by blast
  show ?thesis by (intro conjI) (fact a b c)+
qed

subsection \<open>The price of a quote\<close>

text \<open>
  Claim C10. Whenever variant 2 places a quote on an order-book update, the update is for
  the ETF and the price, which the code reads from the end of the recorded history
  (\<^verbatim>\<open>ask_price_history_of_etf[-1]\<close> for a sell, \<^verbatim>\<open>bid_price_history_of_etf[-1]\<close>
  for a buy), is the best price of the triggering event itself (\<^verbatim>\<open>ask_prices[0]\<close>,
  \<^verbatim>\<open>bid_prices[0]\<close>); variant 1 reads that best price from the event directly, so
  the two price sources coincide on every placement.
\<close>

theorem quote_price_is_best_of_event:
  "(on_order_book_update_message_ac_4 s4 ins n ap av bp bv = Inr (s4', c4) \<longrightarrow>
      (\<forall>i sd p v l. send_insert_order i sd p v l \<in> set c4 \<longrightarrow>
         ins = ETF \<and>
         (sd = ASK \<longrightarrow> p = last (ask_price_history_of_etf s4') \<and> p = ap ! 0) \<and>
         (sd = BID \<longrightarrow> p = last (bid_price_history_of_etf s4') \<and> p = bp ! 0))) \<and>
   (on_order_book_update_message_ac_3 s3 ins n ap av bp bv = Inr (s3', c3) \<longrightarrow>
      (\<forall>i sd p v l. send_insert_order i sd p v l \<in> set c3 \<longrightarrow>
         ins = ETF \<and> (sd = ASK \<longrightarrow> p = ap ! 0) \<and> (sd = BID \<longrightarrow> p = bp ! 0)))"
proof (intro conjI impI allI)
  fix i sd p v l
  assume r: "on_order_book_update_message_ac_4 s4 ins n ap av bp bv = Inr (s4', c4)"
    and q: "send_insert_order i sd p v l \<in> set c4"
  from r have "ins = ETF \<and>
         (sd = ASK \<longrightarrow> p = last (ask_price_history_of_etf s4') \<and> p = ap ! 0) \<and>
         (sd = BID \<longrightarrow> p = last (bid_price_history_of_etf s4') \<and> p = bp ! 0)"
  proof (cases rule: on_order_book_update_message_ac_4_cases)
    case (deferred s1)
    then show ?thesis using q by simp
  next
    case (decide s1 me mf)
    have x: "\<not> (me > mf \<and> me < mf)" by simp
    have h: "ask_price_history_of_etf s4' = ask_price_history_of_etf s1"
      "bid_price_history_of_etf s4' = bid_price_history_of_etf s1"
      using decision_making_ac_4_histories[OF x, of s1 "multiplier_of me mf"] decide(6) by simp_all
    have e: "price_history_updates s4 ETF ap bp = Inr s1" using decide(1,5) by simp
    show ?thesis
      using decision_making_ac_4_quotes[OF decide(6) x multiplier_of_pos q]
        price_history_updates_last[OF e] decide(5) h by auto
  qed
  then show "ins = ETF" "sd = ASK \<Longrightarrow> p = last (ask_price_history_of_etf s4')"
    "sd = ASK \<Longrightarrow> p = ap ! 0" "sd = BID \<Longrightarrow> p = last (bid_price_history_of_etf s4')"
    "sd = BID \<Longrightarrow> p = bp ! 0" by simp_all
next
  fix i sd p v l
  assume r: "on_order_book_update_message_ac_3 s3 ins n ap av bp bv = Inr (s3', c3)"
    and q: "send_insert_order i sd p v l \<in> set c3"
  from r have "ins = ETF \<and> (sd = ASK \<longrightarrow> p = ap ! 0) \<and> (sd = BID \<longrightarrow> p = bp ! 0)"
  proof (cases rule: on_order_book_update_message_ac_3_cases)
    case (deferred s1)
    then show ?thesis using q by simp
  next
    case (sell s1 me mf)
    then show ?thesis using sell_etf_ac_3_quotes[OF sell(6) multiplier_of_pos q] by simp
  next
    case (buy s1 me mf)
    then show ?thesis using buy_etf_ac_3_quotes[OF buy(6) multiplier_of_pos q] by simp
  qed
  then show "ins = ETF" "sd = ASK \<Longrightarrow> p = ap ! 0" "sd = BID \<Longrightarrow> p = bp ! 0" by simp_all
qed

theorem quote_price_is_best_of_event_witness:
  "map_sum id snd
     (on_order_book_update_message_ac_4
        (init_ac_4\<lparr> bid_price_history_of_future := [500], ask_price_history_of_future := [500] \<rparr>)
        ETF 1 [1010, 0, 0, 0, 0] [5, 0, 0, 0, 0] [990, 0, 0, 0, 0] [5, 0, 0, 0, 0])
     = Inr [send_insert_order 1 ASK 1010 60 GOOD_FOR_DAY] \<and>
   map_sum id (last \<circ> ask_price_history_of_etf \<circ> fst)
     (on_order_book_update_message_ac_4
        (init_ac_4\<lparr> bid_price_history_of_future := [500], ask_price_history_of_future := [500] \<rparr>)
        ETF 1 [1010, 0, 0, 0, 0] [5, 0, 0, 0, 0] [990, 0, 0, 0, 0] [5, 0, 0, 0, 0])
     = Inr 1010 \<and>
   [1010, 0, 0, 0, 0] ! 0 = (1010::int) \<and>
   map_sum id snd
     (on_order_book_update_message_ac_3
        (init_ac_3\<lparr> bid_price_history_of_future := [2000], ask_price_history_of_future := [2000] \<rparr>)
        ETF 1 [1010, 0, 0, 0, 0] [5, 0, 0, 0, 0] [990, 0, 0, 0, 0] [5, 0, 0, 0, 0])
     = Inr [send_insert_order 1 BID 990 100 GOOD_FOR_DAY] \<and>
   [990, 0, 0, 0, 0] ! 0 = (990::int)"
proof -
  let ?s3 = "init_ac_3\<lparr> bid_price_history_of_future := [2000], ask_price_history_of_future := [2000] \<rparr>"
  let ?s4 = "init_ac_4\<lparr> bid_price_history_of_future := [500], ask_price_history_of_future := [500] \<rparr>"
  let ?ap = "[1010, 0, 0, 0, 0] :: int list" and ?bp = "[990, 0, 0, 0, 0] :: int list"
  let ?av = "[5, 0, 0, 0, 0] :: int list"
  let ?x3 = "on_order_book_update_message_ac_3 ?s3 ETF 1 ?ap ?av ?bp ?av"
  let ?x4 = "on_order_book_update_message_ac_4 ?s4 ETF 1 ?ap ?av ?bp ?av"
  have c3: "snd (projr ?x3) = [send_insert_order 1 BID 990 100 GOOD_FOR_DAY]"
    by (simp add: handler_defs consts_defs)
  have c4: "snd (projr ?x4) = [send_insert_order 1 ASK 1010 60 GOOD_FOR_DAY]"
    by (simp add: handler_defs consts_defs)
  have r3: "?x3 = Inr (fst (projr ?x3), snd (projr ?x3))"
    by (simp add: handler_defs consts_defs)
  have r4: "?x4 = Inr (fst (projr ?x4), snd (projr ?x4))"
    by (simp add: handler_defs consts_defs)
  note t = quote_price_is_best_of_event[where ?s3.0 = ?s3 and ?s4.0 = ?s4 and ins = ETF and n = 1
      and ap = ?ap and av = ?av and bp = ?bp and bv = ?av
      and ?s3' = "fst (projr ?x3)" and ?c3.0 = "snd (projr ?x3)"
      and ?s4' = "fst (projr ?x4)" and ?c4.0 = "snd (projr ?x4)"]
  from t r4 c4 have b4: "(1010::int) = last (ask_price_history_of_etf (fst (projr ?x4))) \<and>
      (1010::int) = ?ap ! 0"
    by (metis list.set_intros(1))
  from t r3 c3 have b3: "(990::int) = ?bp ! 0"
    by (metis list.set_intros(1))
  have m3: "map_sum id snd ?x3 = Inr (snd (projr ?x3))"
    by (subst r3) simp
  have m4: "map_sum id snd ?x4 = Inr (snd (projr ?x4))"
    "map_sum id (last \<circ> ask_price_history_of_etf \<circ> fst) ?x4
       = Inr (last (ask_price_history_of_etf (fst (projr ?x4))))"
    by (subst r4, simp)+
  show ?thesis
    unfolding m3 m4 c3 c4 using b3 b4 by simp
qed

subsection \<open>Cancelling the resting quotes\<close>

text \<open>
  Claim C3 says that in both variants every synchronized ETF update cancels whatever quote
  rests on either side, whatever the sign of the signal. Variant 1 does not: it cancels
  only the side it is about to quote again. Below, the bid with identifier 1 still rests
  after the second round, whose signal is to sell, and the ask with identifier 2 is never
  cancelled by the third round, whose signal is to buy; the only cancel sent is that of the
  bid, when the signal is to buy again.
\<close>

theorem resting_quote_survives_opposite_signal:
  "map_sum id snd (run_ac_3 1 2147483647 init_ac_3
      (quotes_on_both_sides @ [one_level_book FUTURE 3 2000 2000, one_level_book ETF 3 1000 1000]))
     = Inr [send_insert_order 1 BID 1000 100 GOOD_FOR_DAY,
            send_insert_order 2 ASK 1000 60 GOOD_FOR_DAY,
            send_cancel_order 1,
            send_insert_order 3 BID 1000 100 GOOD_FOR_DAY] \<and>
   map_sum id (bid_id \<circ> fst) (run_ac_3 1 2147483647 init_ac_3 quotes_on_both_sides) = Inr 1 \<and>
   map_sum id (ask_id \<circ> fst) (run_ac_3 1 2147483647 init_ac_3
      (quotes_on_both_sides @ [one_level_book FUTURE 3 2000 2000, one_level_book ETF 3 1000 1000]))
     = Inr 2"
  by (simp add: handler_defs consts_defs quotes_on_both_sides_def)

text \<open>
  Claim C3, amended. On a synchronized ETF update that variant 2 handles without error (the
  future midpoint is not 0), the commands begin with the cancel of the resting ask, if
  there is one, then the cancel of the resting bid, if there is one, whatever the signal,
  and no other cancel follows. On a synchronized ETF update variant 1 cancels the resting
  ask exactly when the ETF midpoint is above the future midpoint, the resting bid exactly
  when it is below, and sends no other cancel.
\<close>

theorem cancel_before_requote:
  "(price_history_updates s4 ETF ap bp = Inr s1 \<and> is_latest_info s1 \<and>
    midpoint_prices s1 = Inr (me, mf) \<and> mf \<noteq> 0 \<longrightarrow>
      (\<exists>s' quotes.
         on_order_book_update_message_ac_4 s4 ETF n ap av bp bv =
           Inr (s', (if ask_id s4 \<noteq> 0 then [send_cancel_order (ask_id s4)] else []) @
                    (if bid_id s4 \<noteq> 0 then [send_cancel_order (bid_id s4)] else []) @ quotes) \<and>
         (\<forall>j. send_cancel_order j \<notin> set quotes))) \<and>
   (price_history_updates s3 ETF ap bp = Inr t1 \<and> is_latest_info t1 \<and>
    midpoint_prices t1 = Inr (me', mf') \<longrightarrow>
      (\<exists>s' quotes.
         on_order_book_update_message_ac_3 s3 ETF n ap av bp bv =
           Inr (s', (if mf' < me' \<and> ask_id s3 \<noteq> 0 then [send_cancel_order (ask_id s3)]
                     else if me' < mf' \<and> bid_id s3 \<noteq> 0 then [send_cancel_order (bid_id s3)]
                     else []) @ quotes) \<and>
         (\<forall>j. send_cancel_order j \<notin> set quotes)))"
proof (intro conjI impI)
  assume a: "price_history_updates s4 ETF ap bp = Inr s1 \<and> is_latest_info s1 \<and>
    midpoint_prices s1 = Inr (me, mf) \<and> mf \<noteq> 0"
  then have s1: "price_history_updates s4 ETF ap bp = Inr s1" by simp
  note f = price_history_updates_ids[OF s1]
  have x: "\<not> (me > mf \<and> me < mf)" by simp
  let ?d = "decision_making_ac_4 s1 (multiplier_of me mf) (me > mf) (me < mf)"
  let ?cancels = "(if ask_id s4 \<noteq> 0 then [send_cancel_order (ask_id s4)] else []) @
                    (if bid_id s4 \<noteq> 0 then [send_cancel_order (bid_id s4)] else [])"
  have r: "on_order_book_update_message_ac_4 s4 ETF n ap av bp bv = Inr ?d"
    using a by (simp add: on_order_book_update_message_ac_4_eq[OF s1])
  have "\<exists>quotes. snd ?d = ?cancels @ quotes \<and> (\<forall>j. send_cancel_order j \<notin> set quotes)"
    unfolding decision_making_ac_4_eq[OF x] Let_def using f by simp
  then obtain quotes where "snd ?d = ?cancels @ quotes" "\<forall>j. send_cancel_order j \<notin> set quotes"
    by blast
  then have "on_order_book_update_message_ac_4 s4 ETF n ap av bp bv =
           Inr (fst ?d, ?cancels @ quotes) \<and> (\<forall>j. send_cancel_order j \<notin> set quotes)"
    using r by (metis prod.collapse)
  then show "\<exists>s' quotes.
         on_order_book_update_message_ac_4 s4 ETF n ap av bp bv =
           Inr (s', (if ask_id s4 \<noteq> 0 then [send_cancel_order (ask_id s4)] else []) @
                    (if bid_id s4 \<noteq> 0 then [send_cancel_order (bid_id s4)] else []) @ quotes) \<and>
         (\<forall>j. send_cancel_order j \<notin> set quotes)"
    by auto
next
  assume a: "price_history_updates s3 ETF ap bp = Inr t1 \<and> is_latest_info t1 \<and>
    midpoint_prices t1 = Inr (me', mf')"
  then have t1: "price_history_updates s3 ETF ap bp = Inr t1" by simp
  note f = price_history_updates_ids[OF t1]
  let ?x = "on_order_book_update_message_ac_3 s3 ETF n ap av bp bv"
  let ?cancels = "(if mf' < me' \<and> ask_id s3 \<noteq> 0 then [send_cancel_order (ask_id s3)]
                     else if me' < mf' \<and> bid_id s3 \<noteq> 0 then [send_cancel_order (bid_id s3)]
                     else [])"
  have "\<exists>s' quotes. ?x = Inr (s', ?cancels @ quotes) \<and> (\<forall>j. send_cancel_order j \<notin> set quotes)"
    using a f
    by (simp add: on_order_book_update_message_ac_3_eq[OF t1] sell_etf_ac_3_eq buy_etf_ac_3_eq)
  then show "\<exists>s' quotes.
         on_order_book_update_message_ac_3 s3 ETF n ap av bp bv =
           Inr (s', (if mf' < me' \<and> ask_id s3 \<noteq> 0 then [send_cancel_order (ask_id s3)]
                     else if me' < mf' \<and> bid_id s3 \<noteq> 0 then [send_cancel_order (bid_id s3)]
                     else []) @ quotes) \<and>
         (\<forall>j. send_cancel_order j \<notin> set quotes)" .
qed

theorem cancel_before_requote_witness:
  "map_sum id snd
     (on_order_book_update_message_ac_4
        (init_ac_4\<lparr> order_ids := 3, asks := {2}, ask_id := 2,
                     bid_price_history_of_future := [2000], ask_price_history_of_future := [2000] \<rparr>)
        ETF 1 [1000, 0, 0, 0, 0] [5, 0, 0, 0, 0] [1000, 0, 0, 0, 0] [5, 0, 0, 0, 0])
     = Inr [send_cancel_order 2, send_insert_order 3 BID 1000 100 GOOD_FOR_DAY] \<and>
   map_sum id snd
     (on_order_book_update_message_ac_3
        (init_ac_3\<lparr> order_ids := 3, asks := {2}, ask_id := 2,
                     bid_price_history_of_future := [2000], ask_price_history_of_future := [2000] \<rparr>)
        ETF 1 [1000, 0, 0, 0, 0] [5, 0, 0, 0, 0] [1000, 0, 0, 0, 0] [5, 0, 0, 0, 0])
     = Inr [send_insert_order 3 BID 1000 100 GOOD_FOR_DAY]"
proof -
  let ?s4 = "init_ac_4\<lparr> order_ids := 3, asks := {2}, ask_id := 2,
                     bid_price_history_of_future := [2000], ask_price_history_of_future := [2000] \<rparr>"
  let ?s3 = "init_ac_3\<lparr> order_ids := 3, asks := {2}, ask_id := 2,
                     bid_price_history_of_future := [2000], ask_price_history_of_future := [2000] \<rparr>"
  let ?ap = "[1000, 0, 0, 0, 0] :: int list" and ?av = "[5, 0, 0, 0, 0] :: int list"
  let ?x4 = "on_order_book_update_message_ac_4 ?s4 ETF 1 ?ap ?av ?ap ?av"
  let ?x3 = "on_order_book_update_message_ac_3 ?s3 ETF 1 ?ap ?av ?ap ?av"
  have h4: "price_history_updates ?s4 ETF ?ap ?ap
              = Inr (?s4\<lparr> bid_price_history_of_etf := [1000], ask_price_history_of_etf := [1000] \<rparr>) \<and>
            is_latest_info (?s4\<lparr> bid_price_history_of_etf := [1000], ask_price_history_of_etf := [1000] \<rparr>) \<and>
            midpoint_prices (?s4\<lparr> bid_price_history_of_etf := [1000], ask_price_history_of_etf := [1000] \<rparr>)
              = Inr (1000, 2000) \<and> (2000::int) \<noteq> 0"
    by (simp add: handler_defs)
  have h3: "price_history_updates ?s3 ETF ?ap ?ap
              = Inr (?s3\<lparr> bid_price_history_of_etf := [1000], ask_price_history_of_etf := [1000] \<rparr>) \<and>
            is_latest_info (?s3\<lparr> bid_price_history_of_etf := [1000], ask_price_history_of_etf := [1000] \<rparr>) \<and>
            midpoint_prices (?s3\<lparr> bid_price_history_of_etf := [1000], ask_price_history_of_etf := [1000] \<rparr>)
              = Inr (1000, 2000)"
    by (simp add: handler_defs)
  note t = cancel_before_requote[where ?s4.0 = ?s4 and ?s3.0 = ?s3 and ap = ?ap and bp = ?ap
      and av = ?av and bv = ?av and n = 1 and me = 1000 and mf = 2000 and me' = 1000 and mf' = 2000
      and ?s1.0 = "?s4\<lparr> bid_price_history_of_etf := [1000], ask_price_history_of_etf := [1000] \<rparr>"
      and ?t1.0 = "?s3\<lparr> bid_price_history_of_etf := [1000], ask_price_history_of_etf := [1000] \<rparr>"]
  from t[THEN conjunct1, THEN mp, OF h4] obtain s' quotes
    where e4: "?x4 = Inr (s', (if ask_id ?s4 \<noteq> 0 then [send_cancel_order (ask_id ?s4)] else []) @
                    (if bid_id ?s4 \<noteq> 0 then [send_cancel_order (bid_id ?s4)] else []) @ quotes)"
    by blast
  from t[THEN conjunct2, THEN mp, OF h3] obtain s'' quotes'
    where e3: "?x3 = Inr (s'', (if (2000::int) < 1000 \<and> ask_id ?s3 \<noteq> 0
                     then [send_cancel_order (ask_id ?s3)]
                     else if (1000::int) < 2000 \<and> bid_id ?s3 \<noteq> 0
                     then [send_cancel_order (bid_id ?s3)]
                     else []) @ quotes')"
      and n3: "\<forall>j. send_cancel_order j \<notin> set quotes'"
    by blast
  have d4: "map_sum id snd ?x4 = Inr [send_cancel_order 2, send_insert_order 3 BID 1000 100 GOOD_FOR_DAY]"
    by (simp add: handler_defs consts_defs)
  have d3: "map_sum id snd ?x3 = Inr [send_insert_order 3 BID 1000 100 GOOD_FOR_DAY]"
    by (simp add: handler_defs consts_defs)
  have "hd (snd (projr ?x4)) = send_cancel_order 2"
    unfolding e4 by (simp add: init_ac_4_def)
  moreover have "send_cancel_order 2 \<notin> set (snd (projr ?x3))"
    unfolding e3 using n3 by (simp add: init_ac_3_def)
  ultimately show ?thesis using d4 d3 by simp
qed

subsection \<open>The size of a buy near the limit\<close>

text \<open>
  Claim C4 says that at \<open>position = 95\<close> a buy signal places a buy order of size 5. The
  code places none: both variants quote a buy only while
  \<open>position < POSITION_LIMIT - LOT_SIZE\<close>, that is below 90. Below, a bid of 100 lots is
  filled for 95 lots; at the next synchronized ETF update, with the same buy signal, the
  bid is cancelled and no order is inserted.
\<close>

theorem no_buy_at_position_95:
  "map_sum id (position \<circ> fst) (run_ac_3 1 2147483647 init_ac_3
      [one_level_book FUTURE 1 2000 2000, one_level_book ETF 1 1000 1000,
       Order_filled_message 1 1000 95, one_level_book FUTURE 2 2000 2000]) = Inr 95 \<and>
   map_sum id snd (run_ac_3 1 2147483647 init_ac_3
      [one_level_book FUTURE 1 2000 2000, one_level_book ETF 1 1000 1000,
       Order_filled_message 1 1000 95, one_level_book FUTURE 2 2000 2000,
       one_level_book ETF 2 1000 1000])
     = Inr [send_insert_order 1 BID 1000 100 GOOD_FOR_DAY, send_hedge_order 2 ASK 100 95,
            send_cancel_order 1] \<and>
   map_sum id (position \<circ> fst) (run_ac_4 1 2147483647 init_ac_4
      [one_level_book FUTURE 1 2000 2000, one_level_book ETF 1 1000 1000,
       Order_filled_message 1 1000 95, one_level_book FUTURE 2 2000 2000]) = Inr 95 \<and>
   map_sum id snd (run_ac_4 1 2147483647 init_ac_4
      [one_level_book FUTURE 1 2000 2000, one_level_book ETF 1 1000 1000,
       Order_filled_message 1 1000 95, one_level_book FUTURE 2 2000 2000,
       one_level_book ETF 2 1000 1000])
     = Inr [send_insert_order 1 BID 1000 100 GOOD_FOR_DAY, send_hedge_order 2 ASK 100 95,
            send_cancel_order 1]"
  by (simp add: handler_defs consts_defs)

text \<open>
  Claim C4, amended. On a synchronized ETF update whose signal is to buy, a buy order is
  placed exactly when \<open>position < POSITION_LIMIT - LOT_SIZE\<close>, at the event's best bid and
  with size \<open>min (LOT_SIZE * multiplier) (POSITION_LIMIT - position)\<close>: the order is shrunk
  so that it reaches the limit exactly (size 15 at position 85 with a multiplier of 2 or
  more), and at position 95 no buy order is placed. The commands of the update are the
  cancels of the resting quotes (variant 1: the bid only) followed by that order, if any.
\<close>

theorem buy_size_law:
  "(price_history_updates s3 ETF ap bp = Inr s1 \<and> is_latest_info s1 \<and>
    midpoint_prices s1 = Inr (me, mf) \<and> me < mf \<longrightarrow>
      map_sum id snd (on_order_book_update_message_ac_3 s3 ETF n ap av bp bv) =
        Inr ((if bid_id s3 \<noteq> 0 then [send_cancel_order (bid_id s3)] else []) @
             (if position s3 < POSITION_LIMIT - LOT_SIZE
              then [send_insert_order (order_ids s3) BID (bp ! 0)
                      (min (LOT_SIZE * multiplier_of me mf) (POSITION_LIMIT - position s3))
                      GOOD_FOR_DAY]
              else []))) \<and>
   (price_history_updates s4 ETF ap bp = Inr t1 \<and> is_latest_info t1 \<and>
    midpoint_prices t1 = Inr (me', mf') \<and> me' < mf' \<and> mf' \<noteq> 0 \<longrightarrow>
      map_sum id snd (on_order_book_update_message_ac_4 s4 ETF n ap av bp bv) =
        Inr ((if ask_id s4 \<noteq> 0 then [send_cancel_order (ask_id s4)] else []) @
             (if bid_id s4 \<noteq> 0 then [send_cancel_order (bid_id s4)] else []) @
             (if position s4 < POSITION_LIMIT - LOT_SIZE
              then [send_insert_order (order_ids s4) BID (bp ! 0)
                      (min (LOT_SIZE * multiplier_of me' mf') (POSITION_LIMIT - position s4))
                      GOOD_FOR_DAY]
              else [])))"
proof (intro conjI impI)
  assume a: "price_history_updates s3 ETF ap bp = Inr s1 \<and> is_latest_info s1 \<and>
    midpoint_prices s1 = Inr (me, mf) \<and> me < mf"
  then have s1: "price_history_updates s3 ETF ap bp = Inr s1" by simp
  note f = price_history_updates_ids[OF s1]
  show "map_sum id snd (on_order_book_update_message_ac_3 s3 ETF n ap av bp bv) =
        Inr ((if bid_id s3 \<noteq> 0 then [send_cancel_order (bid_id s3)] else []) @
             (if position s3 < POSITION_LIMIT - LOT_SIZE
              then [send_insert_order (order_ids s3) BID (bp ! 0)
                      (min (LOT_SIZE * multiplier_of me mf) (POSITION_LIMIT - position s3))
                      GOOD_FOR_DAY]
              else []))"
    using a f
    by (simp add: on_order_book_update_message_ac_3_eq[OF s1] buy_etf_ac_3_eq min_def
        POSITION_LIMIT_def)
next
  assume a: "price_history_updates s4 ETF ap bp = Inr t1 \<and> is_latest_info t1 \<and>
    midpoint_prices t1 = Inr (me', mf') \<and> me' < mf' \<and> mf' \<noteq> 0"
  then have t1: "price_history_updates s4 ETF ap bp = Inr t1" by simp
  note f = price_history_updates_ids[OF t1]
  note l = price_history_updates_last[OF t1]
  have x: "\<not> (me' > mf' \<and> me' < mf')" by simp
  show "map_sum id snd (on_order_book_update_message_ac_4 s4 ETF n ap av bp bv) =
        Inr ((if ask_id s4 \<noteq> 0 then [send_cancel_order (ask_id s4)] else []) @
             (if bid_id s4 \<noteq> 0 then [send_cancel_order (bid_id s4)] else []) @
             (if position s4 < POSITION_LIMIT - LOT_SIZE
              then [send_insert_order (order_ids s4) BID (bp ! 0)
                      (min (LOT_SIZE * multiplier_of me' mf') (POSITION_LIMIT - position s4))
                      GOOD_FOR_DAY]
              else []))"
    using a f l
    by (simp add: on_order_book_update_message_ac_4_eq[OF t1] decision_making_ac_4_eq
        Let_def min_def POSITION_LIMIT_def)
qed

theorem buy_size_law_witness:
  "map_sum id snd
     (on_order_book_update_message_ac_3
        (init_ac_3\<lparr> position := 85, bid_price_history_of_future := [2000],
                     ask_price_history_of_future := [2000] \<rparr>)
        ETF 1 [1000, 0, 0, 0, 0] [5, 0, 0, 0, 0] [1000, 0, 0, 0, 0] [5, 0, 0, 0, 0])
     = Inr [send_insert_order 1 BID 1000 15 GOOD_FOR_DAY] \<and>
   map_sum id snd
     (on_order_book_update_message_ac_3
        (init_ac_3\<lparr> position := 95, bid_price_history_of_future := [2000],
                     ask_price_history_of_future := [2000] \<rparr>)
        ETF 1 [1000, 0, 0, 0, 0] [5, 0, 0, 0, 0] [1000, 0, 0, 0, 0] [5, 0, 0, 0, 0])
     = Inr [] \<and>
   map_sum id snd
     (on_order_book_update_message_ac_4
        (init_ac_4\<lparr> position := 85, bid_price_history_of_future := [2000],
                     ask_price_history_of_future := [2000] \<rparr>)
        ETF 1 [1000, 0, 0, 0, 0] [5, 0, 0, 0, 0] [1000, 0, 0, 0, 0] [5, 0, 0, 0, 0])
     = Inr [send_insert_order 1 BID 1000 15 GOOD_FOR_DAY] \<and>
   map_sum id snd
     (on_order_book_update_message_ac_4
        (init_ac_4\<lparr> position := 95, bid_price_history_of_future := [2000],
                     ask_price_history_of_future := [2000] \<rparr>)
        ETF 1 [1000, 0, 0, 0, 0] [5, 0, 0, 0, 0] [1000, 0, 0, 0, 0] [5, 0, 0, 0, 0])
     = Inr []"
proof -
  let ?ap = "[1000, 0, 0, 0, 0] :: int list" and ?av = "[5, 0, 0, 0, 0] :: int list"
  let ?a3 = "init_ac_3\<lparr> position := 85, bid_price_history_of_future := [2000],
                     ask_price_history_of_future := [2000] \<rparr>"
  let ?b3 = "init_ac_3\<lparr> position := 95, bid_price_history_of_future := [2000],
                     ask_price_history_of_future := [2000] \<rparr>"
  let ?a4 = "init_ac_4\<lparr> position := 85, bid_price_history_of_future := [2000],
                     ask_price_history_of_future := [2000] \<rparr>"
  let ?b4 = "init_ac_4\<lparr> position := 95, bid_price_history_of_future := [2000],
                     ask_price_history_of_future := [2000] \<rparr>"
  have ha3: "price_history_updates ?a3 ETF ?ap ?ap
        = Inr (?a3\<lparr> bid_price_history_of_etf := [1000], ask_price_history_of_etf := [1000] \<rparr>) \<and>
      is_latest_info (?a3\<lparr> bid_price_history_of_etf := [1000], ask_price_history_of_etf := [1000] \<rparr>) \<and>
      midpoint_prices (?a3\<lparr> bid_price_history_of_etf := [1000], ask_price_history_of_etf := [1000] \<rparr>)
        = Inr (1000, 2000) \<and> (1000::int) < 2000"
    by (simp add: handler_defs)
  have hb3: "price_history_updates ?b3 ETF ?ap ?ap
        = Inr (?b3\<lparr> bid_price_history_of_etf := [1000], ask_price_history_of_etf := [1000] \<rparr>) \<and>
      is_latest_info (?b3\<lparr> bid_price_history_of_etf := [1000], ask_price_history_of_etf := [1000] \<rparr>) \<and>
      midpoint_prices (?b3\<lparr> bid_price_history_of_etf := [1000], ask_price_history_of_etf := [1000] \<rparr>)
        = Inr (1000, 2000) \<and> (1000::int) < 2000"
    by (simp add: handler_defs)
  have ha4: "price_history_updates ?a4 ETF ?ap ?ap
        = Inr (?a4\<lparr> bid_price_history_of_etf := [1000], ask_price_history_of_etf := [1000] \<rparr>) \<and>
      is_latest_info (?a4\<lparr> bid_price_history_of_etf := [1000], ask_price_history_of_etf := [1000] \<rparr>) \<and>
      midpoint_prices (?a4\<lparr> bid_price_history_of_etf := [1000], ask_price_history_of_etf := [1000] \<rparr>)
        = Inr (1000, 2000) \<and> (1000::int) < 2000 \<and> (2000::int) \<noteq> 0"
    by (simp add: handler_defs)
  have hb4: "price_history_updates ?b4 ETF ?ap ?ap
        = Inr (?b4\<lparr> bid_price_history_of_etf := [1000], ask_price_history_of_etf := [1000] \<rparr>) \<and>
      is_latest_info (?b4\<lparr> bid_price_history_of_etf := [1000], ask_price_history_of_etf := [1000] \<rparr>) \<and>
      midpoint_prices (?b4\<lparr> bid_price_history_of_etf := [1000], ask_price_history_of_etf := [1000] \<rparr>)
        = Inr (1000, 2000) \<and> (1000::int) < 2000 \<and> (2000::int) \<noteq> 0"
    by (simp add: handler_defs)
  note t = buy_size_law[where ap = ?ap and bp = ?ap and av = ?av and bv = ?av and n = 1
      and me = 1000 and mf = 2000 and me' = 1000 and mf' = 2000]
  note ka3 = t[where ?s3.0 = ?a3, THEN conjunct1, THEN mp, OF ha3]
  note kb3 = t[where ?s3.0 = ?b3, THEN conjunct1, THEN mp, OF hb3]
  note ka4 = t[where ?s4.0 = ?a4, THEN conjunct2, THEN mp, OF ha4]
  note kb4 = t[where ?s4.0 = ?b4, THEN conjunct2, THEN mp, OF hb4]
  show ?thesis
    unfolding ka3 kb3 ka4 kb4
    by (simp add: consts_defs multiplier_of_def init_ac_3_def init_ac_4_def)
qed

end
